theory Spec2Isabelle
  imports Complex_Main
begin

section \<open>Python values, exceptions and strings\<close>

text \<open>
  The service is written in Python.  A Python \<open>str\<close> is read as a list of characters
  (code points below 256), a \<open>dict\<close> as an association list in insertion order, and
  every exception of class \<open>Exception\<close> as a value carrying its class and the text that
  \<open>str(e)\<close> returns.  Dictionary keys are compared structurally; the keys of this
  program are block ids, which are integers as produced by the page renderer or strings
  as produced by the JSON decoder.
\<close>

datatype pyval =
    PNone
  | PBool bool
  | PInt int
  | PFloat real
  | PStr string
  | PList "pyval list"
  | PTuple "pyval list"
  | PDict "(pyval \<times> pyval) list"

datatype exn_class =
    TypeError | AttributeError | KeyError | ValueError | UnboundLocalError
  | ImportError | JSONDecodeError | OSError | PermissionError | FileNotFoundError
  | RuntimeError

datatype exn = Exn exn_class string

fun exn_str :: "exn \<Rightarrow> string" where
  "exn_str (Exn c msg) = msg"

fun exn_cls :: "exn \<Rightarrow> exn_class" where
  "exn_cls (Exn c msg) = c"

text \<open>Truth value of an object, as tested by \<open>if x:\<close> and \<open>if not x:\<close>.\<close>

fun truthy :: "pyval \<Rightarrow> bool" where
  "truthy PNone = False"
| "truthy (PBool b) = b"
| "truthy (PInt i) = (i \<noteq> 0)"
| "truthy (PFloat r) = (r \<noteq> 0)"
| "truthy (PStr s) = (s \<noteq> [])"
| "truthy (PList xs) = (xs \<noteq> [])"
| "truthy (PTuple xs) = (xs \<noteq> [])"
| "truthy (PDict d) = (d \<noteq> [])"

subsection \<open>Dictionaries\<close>

text \<open>\<open>d[k] = v\<close>: an existing key keeps its position, a new key goes to the end.\<close>

fun dict_set :: "('k \<times> 'v) list \<Rightarrow> 'k \<Rightarrow> 'v \<Rightarrow> ('k \<times> 'v) list" where
  "dict_set [] k v = [(k, v)]"
| "dict_set ((k', v') # d) k v =
     (if k' = k then (k', v) # d else (k', v') # dict_set d k v)"

text \<open>\<open>d.update(e)\<close> for a dictionary \<open>e\<close>.\<close>

fun dict_update :: "('k \<times> 'v) list \<Rightarrow> ('k \<times> 'v) list \<Rightarrow> ('k \<times> 'v) list" where
  "dict_update d [] = d"
| "dict_update d ((k, v) # e) = dict_update (dict_set d k v) e"

text \<open>\<open>d.get(k, default)\<close>.\<close>

definition dict_get :: "('k \<times> 'v) list \<Rightarrow> 'k \<Rightarrow> 'v \<Rightarrow> 'v" where
  "dict_get d k dflt = (case map_of d k of None \<Rightarrow> dflt | Some v \<Rightarrow> v)"

subsection \<open>Strings\<close>

text \<open>The characters below 256 for which \<open>str.isspace\<close> holds.\<close>

definition py_isspace :: "char \<Rightarrow> bool" where
  "py_isspace c \<longleftrightarrow>
     c \<in> set [CHR 0x09, CHR 0x0A, CHR 0x0B, CHR 0x0C, CHR 0x0D, CHR 0x1C, CHR 0x1D,
              CHR 0x1E, CHR 0x1F, CHR 0x20, CHR 0x85, CHR 0xA0]"

text \<open>\<open>s.strip()\<close>.\<close>

definition py_strip :: "string \<Rightarrow> string" where
  "py_strip s = rev (dropWhile py_isspace (rev (dropWhile py_isspace s)))"

definition startswith :: "string \<Rightarrow> string \<Rightarrow> bool" where
  "startswith s p \<longleftrightarrow> take (length p) s = p"

definition endswith :: "string \<Rightarrow> string \<Rightarrow> bool" where
  "endswith s p \<longleftrightarrow> length p \<le> length s \<and> drop (length s - length p) s = p"

text \<open>\<open>s.find(c)\<close> and \<open>s.rfind(c)\<close> for a one-character needle; \<open>-1\<close> when absent.\<close>

fun py_find :: "char \<Rightarrow> string \<Rightarrow> int" where
  "py_find c [] = - 1"
| "py_find c (x # xs) =
     (if x = c then 0 else (let r = py_find c xs in if r = - 1 then - 1 else r + 1))"

definition py_rfind :: "char \<Rightarrow> string \<Rightarrow> int" where
  "py_rfind c s =
     (let r = py_find c (rev s) in if r = - 1 then - 1 else int (length s) - 1 - r)"

text \<open>\<open>s[i:j]\<close> for \<open>0 \<le> i\<close> and \<open>0 \<le> j\<close>.\<close>

definition py_slice :: "string \<Rightarrow> int \<Rightarrow> int \<Rightarrow> string" where
  "py_slice s i j = take (nat (j - i)) (drop (nat i) s)"

text \<open>Decimal text of an integer, as \<open>str(n)\<close> writes it.\<close>

definition digit_char :: "nat \<Rightarrow> char" where
  "digit_char d = ''0123456789'' ! d"

function str_of_nat :: "nat \<Rightarrow> string" where
  "str_of_nat n =
     (if n < 10 then [digit_char n] else str_of_nat (n div 10) @ [digit_char (n mod 10)])"
  by pat_completeness auto
termination
  by (relation "measure id") auto

definition str_of_int :: "int \<Rightarrow> string" where
  "str_of_int i = (if i < 0 then CHR ''-'' # str_of_nat (nat (- i)) else str_of_nat (nat i))"



section \<open>Block extraction and annotation (image_processing_utils.py)\<close>

text \<open>
  A word of the renderer is the tuple
  \<open>(x0, y0, x1, y1, word, block_no, line_no, word_no)\<close>.
\<close>

type_synonym word = "real \<times> real \<times> real \<times> real \<times> string \<times> int \<times> int \<times> int"

type_synonym rect = "(real \<times> real) \<times> (real \<times> real)"

type_synonym rgb = "nat \<times> nat \<times> nat"

text \<open>A block's record; \<open>btext\<close> is its \<open>"text"\<close> entry.\<close>

record block =
  btext :: string
  words :: "string list"
  bounding_boxes :: "rect list"

type_synonym block_details = "(int \<times> block) list"

datatype draw_op =
    Rectangle rect rgb
  | Label "real \<times> real" string rgb

definition word_text :: "word \<Rightarrow> string" where
  "word_text w = (case w of (x0, y0, x1, y1, word, block_no, line_no, word_no) \<Rightarrow> word)"

definition word_block :: "word \<Rightarrow> int" where
  "word_block w = (case w of (x0, y0, x1, y1, word, block_no, line_no, word_no) \<Rightarrow> block_no)"

definition word_rect :: "word \<Rightarrow> rect" where
  "word_rect w =
     (case w of (x0, y0, x1, y1, word, block_no, line_no, word_no) \<Rightarrow> ((x0, y0), (x1, y1)))"

text \<open>
  \<open>generate_color_palette\<close>: one colour per block number; \<open>draws\<close> stands for the three
  calls of \<open>random.randint(0, 255)\<close> made for a block number.
\<close>

definition generate_color_palette :: "(int \<Rightarrow> rgb) \<Rightarrow> int list \<Rightarrow> (int \<rightharpoonup> rgb)" where
  "generate_color_palette draws block_numbers =
     (\<lambda>block_no. if block_no \<in> set block_numbers then Some (draws block_no) else None)"

definition empty_block :: block where
  "empty_block = \<lparr>btext = [], words = [], bounding_boxes = []\<rparr>"

text \<open>The three in-place updates of a block's record for one word.\<close>

definition append_word :: "string \<Rightarrow> rect \<Rightarrow> block \<Rightarrow> block" where
  "append_word word r b =
     b\<lparr>btext := btext b @ word @ '' '',
       words := words b @ [word],
       bounding_boxes := bounding_boxes b @ [r]\<rparr>"

text \<open>
  \<open>draw.rectangle(rect, outline=color, width=2)\<close>: Pillow refuses a rectangle whose
  corners are not in order with a \<open>ValueError\<close>; otherwise the rectangle is drawn.
\<close>

definition draw_rectangle :: "draw_op list \<Rightarrow> rect \<Rightarrow> rgb \<Rightarrow> exn + draw_op list" where
  "draw_rectangle img rect color =
     (case rect of ((x0, y0), (x1, y1)) \<Rightarrow>
        if x1 < x0 then Inl (Exn ValueError ''x1 must be greater than or equal to x0'')
        else if y1 < y0 then Inl (Exn ValueError ''y1 must be greater than or equal to y0'')
        else Inr (img @ [Rectangle rect color]))"

text \<open>
  One round of the loop over \<open>words\<close>.  \<open>color_palette[block_no]\<close> raises \<open>KeyError\<close> for
  a block number that was not registered, and the rectangle is drawn before the word is
  recorded, so a failure of the drawing leaves the round without effect on the blocks.
\<close>

definition annotate_word ::
  "(int \<rightharpoonup> rgb) \<Rightarrow> word \<Rightarrow> draw_op list \<times> block_details \<Rightarrow>
     exn + (draw_op list \<times> block_details)" where
  "annotate_word color_palette word_info st =
     (case word_info of (x0, y0, x1, y1, word, block_no, line_no, word_no) \<Rightarrow>
      (case st of (img, details) \<Rightarrow>
       (case color_palette block_no of
          None \<Rightarrow> Inl (Exn KeyError (str_of_int block_no))
        | Some color \<Rightarrow>
            (let rect = ((x0, y0), (x1, y1)) in
             (case draw_rectangle img rect color of
                Inl e \<Rightarrow> Inl e
              | Inr img1 \<Rightarrow>
                  (let details1 = (if block_no \<notin> set (map fst details)
                                   then details @ [(block_no, empty_block)] else details);
                       details2 = map (\<lambda>(k, b). if k = block_no then (k, append_word word rect b)
                                                   else (k, b)) details1;
                       img2 = (if word_no = 0 \<and> line_no = 0
                               then img1 @ [Label (x0, y0 - 15) (''Block '' @ str_of_int block_no) color]
                               else img1)
                   in Inr (img2, details2)))))))"

fun annotate_words ::
  "(int \<rightharpoonup> rgb) \<Rightarrow> word list \<Rightarrow> draw_op list \<times> block_details \<Rightarrow>
     exn + (draw_op list \<times> block_details)" where
  "annotate_words color_palette [] st = Inr st"
| "annotate_words color_palette (w # ws) st =
     (case annotate_word color_palette w st of
        Inl e \<Rightarrow> Inl e
      | Inr st' \<Rightarrow> annotate_words color_palette ws st')"

text \<open>
  \<open>annotate_image_with_words(image, words, color_palette, block_details)\<close>: the loop over
  the words, then the pass that strips every block's text.  The image and the block
  mapping are mutated in place; the model returns both.
\<close>

definition annotate_image_with_words ::
  "draw_op list \<Rightarrow> word list \<Rightarrow> (int \<rightharpoonup> rgb) \<Rightarrow> block_details \<Rightarrow>
     exn + (draw_op list \<times> block_details)" where
  "annotate_image_with_words img ws color_palette details =
     (case annotate_words color_palette ws (img, details) of
        Inl e \<Rightarrow> Inl e
      | Inr (img', details') \<Rightarrow>
          Inr (img', map (\<lambda>(k, b). (k, b\<lparr>btext := py_strip (btext b)\<rparr>)) details'))"

text \<open>
  The extraction as the request handler runs it: the palette is generated from the block
  numbers of the very words that are annotated, and the block mapping starts empty.
\<close>

definition extract_blocks :: "(int \<Rightarrow> rgb) \<Rightarrow> word list \<Rightarrow> exn + (draw_op list \<times> block_details)" where
  "extract_blocks draws ws =
     annotate_image_with_words [] ws
       (generate_color_palette draws (map word_block ws)) []"


subsection \<open>Notions used to state the extraction property\<close>

text \<open>\<open>" ".join(ws)\<close>: the words separated by single spaces.\<close>

definition join_spaces :: "string list \<Rightarrow> string" where
  "join_spaces ws = (case ws of [] \<Rightarrow> [] | w # rest \<Rightarrow> w @ concat (map (\<lambda>v. '' '' @ v) rest))"

text \<open>
  The record that the loop has built for block \<open>k\<close> after the words \<open>ws\<close>, before the
  final strip.
\<close>

definition block_of :: "int \<Rightarrow> word list \<Rightarrow> block" where
  "block_of k ws =
     \<lparr>btext = concat (map (\<lambda>w. word_text w @ '' '') (filter (\<lambda>w. word_block w = k) ws)),
      words = map word_text (filter (\<lambda>w. word_block w = k) ws),
      bounding_boxes = map word_rect (filter (\<lambda>w. word_block w = k) ws)\<rparr>"

text \<open>The distinct elements of a list in the order of their first occurrence.\<close>

definition first_seen :: "'a list \<Rightarrow> 'a list" where
  "first_seen xs = rev (remdups (rev xs))"

text \<open>
  A word whose rectangle has its corners in order, as the renderer delivers it: the first
  corner is the upper left one.
\<close>

definition ordered_rect :: "word \<Rightarrow> bool" where
  "ordered_rect w = (case w of (x0, y0, x1, y1, word, block_no, line_no, word_no) \<Rightarrow>
                       x0 \<le> x1 \<and> y0 \<le> y1)"

text \<open>Four words of a page: three of block 0 and, in between, one of block 1.\<close>

definition demo_words :: "word list" where
  "demo_words =
     [(0, 0, 1, 1, ''Once'', 0, 0, 0), (1, 0, 2, 1, ''upon'', 0, 0, 1),
      (0, 2, 1, 3, ''Hi'', 1, 0, 0), (2, 0, 3, 1, ''a'', 0, 0, 2)]"

text \<open>A word whose rectangle runs from right to left and from bottom to top.\<close>

definition reversed_word :: word where
  "reversed_word = (5, 5, 1, 1, ''a'', 0, 0, 0)"


section \<open>Enrichment (generate_block_json_utils.py)\<close>

subsection \<open>Extracting the JSON candidate from a response\<close>

definition json_fence :: string where
  "json_fence = [CHR 0x60, CHR 0x60, CHR 0x60] @ ''json''"

definition backticks :: string where
  "backticks = [CHR 0x60, CHR 0x60, CHR 0x60]"

text \<open>
  The first stage of \<open>clean_llm_response_to_json_string\<close>: the response is stripped, and
  a response that starts with the markdown fence loses its first seven characters, a
  closing fence when it ends with one, and surrounding white space.
\<close>

definition strip_markdown_fence :: "string \<Rightarrow> string" where
  "strip_markdown_fence llm_response_text =
     (let text = py_strip llm_response_text
      in if startswith text json_fence
         then (let text1 = drop 7 text;
                   text2 = (if endswith text1 backticks
                            then take (length text1 - 3) text1 else text1)
               in py_strip text2)
         else text)"

text \<open>
  The second stage: the slice from the first opening brace to the last closing brace,
  when both exist in that order, and the text as it is otherwise.  The function is
  declared to return an optional string but returns a string on every path.
\<close>

definition clean_llm_response_to_json_string :: "string \<Rightarrow> string" where
  "clean_llm_response_to_json_string llm_response_text =
     (let text = strip_markdown_fence llm_response_text;
          first_brace = py_find (CHR ''{'') text;
          last_brace = py_rfind (CHR ''}'') text
      in if first_brace \<noteq> - 1 \<and> last_brace \<noteq> - 1 \<and> last_brace > first_brace
         then py_slice text first_brace (last_brace + 1)
         else text)"

text \<open>Two responses: a fenced object, and an object inside explanatory prose.\<close>

definition fenced_response :: string where
  \<open>fenced_response = json_fence @ [CHR 0x0A] @ ''{"a":1}'' @ [CHR 0x0A] @ backticks\<close>

definition prose_response :: string where
  \<open>prose_response = ''Here is the JSON: {"a":1} Hope this helps!''\<close>


subsection \<open>Library functions\<close>

text \<open>
  The JSON codec and the textual form of values belong to the Python library and are
  parameters of the model: \<open>loads\<close> decodes a string (\<open>None\<close> stands for
  \<open>JSONDecodeError\<close>), \<open>dumps\<close> encodes a value, and \<open>repr\<close> gives the text of a value
  that is neither a string nor an integer.
\<close>

record pylib =
  loads :: "string \<Rightarrow> pyval option"
  dumps :: "pyval \<Rightarrow> string"
  repr :: "pyval \<Rightarrow> string"

text \<open>\<open>json.loads(v)\<close>: an argument that is not a string raises \<open>TypeError\<close>.\<close>

definition json_loads :: "pylib \<Rightarrow> pyval \<Rightarrow> exn + pyval" where
  "json_loads lib v =
     (case v of
        PStr s \<Rightarrow>
          (case loads lib s of
             None \<Rightarrow> Inl (Exn JSONDecodeError ''Expecting value'')
           | Some parsed \<Rightarrow> Inr parsed)
      | _ \<Rightarrow> Inl (Exn TypeError ''the JSON object must be str, bytes or bytearray''))"

text \<open>\<open>str(v)\<close>, which is also how an f-string formats \<open>v\<close>.\<close>

definition py_str :: "pylib \<Rightarrow> pyval \<Rightarrow> string" where
  "py_str lib v = (case v of PStr s \<Rightarrow> s | PInt i \<Rightarrow> str_of_int i | _ \<Rightarrow> repr lib v)"

text \<open>
  \<open>d.update(x)\<close>: a dictionary is merged key by key; any other iterable must consist of
  two-element sequences with hashable first elements.
\<close>

fun hashable :: "pyval \<Rightarrow> bool" where
  "hashable (PList xs) = False"
| "hashable (PDict d) = False"
| "hashable (PTuple xs) = (\<forall>x \<in> set xs. hashable x)"
| "hashable v = True"

fun as_pair :: "pyval \<Rightarrow> exn + pyval \<times> pyval" where
  "as_pair (PList [k, v]) = Inr (k, v)"
| "as_pair (PTuple [k, v]) = Inr (k, v)"
| "as_pair (PStr [a, b]) = Inr (PStr [a], PStr [b])"
| "as_pair (PDict [(k1, v1), (k2, v2)]) = Inr (k1, k2)"
| "as_pair (PList xs) = Inl (Exn ValueError ''dictionary update sequence element has wrong length'')"
| "as_pair (PTuple xs) = Inl (Exn ValueError ''dictionary update sequence element has wrong length'')"
| "as_pair (PStr s) = Inl (Exn ValueError ''dictionary update sequence element has wrong length'')"
| "as_pair (PDict d) = Inl (Exn ValueError ''dictionary update sequence element has wrong length'')"
| "as_pair v = Inl (Exn TypeError ''cannot convert dictionary update sequence element to a sequence'')"

fun update_pairs :: "(pyval \<times> pyval) list \<Rightarrow> pyval list \<Rightarrow> exn + (pyval \<times> pyval) list" where
  "update_pairs d [] = Inr d"
| "update_pairs d (x # xs) =
     (case as_pair x of
        Inl e \<Rightarrow> Inl e
      | Inr (k, v) \<Rightarrow>
          if hashable k then update_pairs (dict_set d k v) xs
          else Inl (Exn TypeError ''unhashable type''))"

definition py_update :: "(pyval \<times> pyval) list \<Rightarrow> pyval \<Rightarrow> exn + (pyval \<times> pyval) list" where
  "py_update d x =
     (case x of
        PDict e \<Rightarrow> Inr (dict_update d e)
      | PList xs \<Rightarrow> update_pairs d xs
      | PTuple xs \<Rightarrow> update_pairs d xs
      | PStr s \<Rightarrow> update_pairs d (map (\<lambda>c. PStr [c]) s)
      | _ \<Rightarrow> Inl (Exn TypeError ''object is not iterable''))"

text \<open>\<open>range(0, n, step)\<close>; a zero step raises \<open>ValueError\<close>.\<close>

definition py_range_step :: "nat \<Rightarrow> int \<Rightarrow> exn + nat list" where
  "py_range_step n step =
     (if step = 0 then Inl (Exn ValueError ''range() arg 3 must not be zero'')
      else if step < 0 then Inr []
      else Inr (map (\<lambda>j. j * nat step) [0 ..< (n + nat step - 1) div nat step]))"

subsection \<open>Fallback enrichment\<close>

definition ssml_wrap :: "string \<Rightarrow> string" where
  "ssml_wrap t =
     ''<speak><prosody rate='' @ [CHR 0x27] @ ''slow'' @ [CHR 0x27] @ ''>'' @ t
       @ ''</prosody></speak>''"

text \<open>The record that \<open>create_fallback_block_json\<close> builds for one block.\<close>

definition fallback_block :: "pylib \<Rightarrow> (pyval \<times> pyval) list \<Rightarrow> pyval" where
  "fallback_block lib block_data =
     PDict
       [(PStr ''text'', dict_get block_data (PStr ''text'') (PStr [])),
        (PStr ''words'', dict_get block_data (PStr ''words'') (PList [])),
        (PStr ''bounding_boxes'', dict_get block_data (PStr ''bounding_boxes'') (PList [])),
        (PStr ''ssml'',
           PStr (ssml_wrap (py_str lib (dict_get block_data (PStr ''text'') (PStr []))))),
        (PStr ''dialog'', PStr ''false''),
        (PStr ''person_type'', PStr ''null'')]"

text \<open>
  The loop over \<open>blocks.items()\<close>; \<open>block_data.get\<close> raises \<open>AttributeError\<close> when the
  value of a block is not a dictionary.
\<close>

fun fallback_loop ::
  "pylib \<Rightarrow> (pyval \<times> pyval) list \<Rightarrow> (pyval \<times> pyval) list \<Rightarrow> exn + (pyval \<times> pyval) list" where
  "fallback_loop lib [] fallback_output = Inr fallback_output"
| "fallback_loop lib ((block_id, block_data) # rest) fallback_output =
     (case block_data of
        PDict bd \<Rightarrow>
          fallback_loop lib rest (dict_set fallback_output block_id (fallback_block lib bd))
      | _ \<Rightarrow> Inl (Exn AttributeError ''object has no attribute get''))"

text \<open>
  \<open>create_fallback_block_json\<close>: both handlers, the one for \<open>JSONDecodeError\<close> and the
  one for any other exception, return \<open>None\<close>.  Calling \<open>items\<close> on a decoded value
  that is not a dictionary raises \<open>AttributeError\<close>.
\<close>

definition create_fallback_block_json :: "pylib \<Rightarrow> pyval \<Rightarrow> pyval" where
  "create_fallback_block_json lib blocks_input_json_str =
     (case json_loads lib blocks_input_json_str of
        Inl e \<Rightarrow> PNone
      | Inr blocks \<Rightarrow>
          (case blocks of
             PDict items \<Rightarrow>
               (case fallback_loop lib items [] of
                  Inl e \<Rightarrow> PNone
                | Inr fallback_output \<Rightarrow> PDict fallback_output)
           | _ \<Rightarrow> PNone))"

subsection \<open>Enrichment of one chunk with retries\<close>

definition MAX_RETRIES :: nat where
  "MAX_RETRIES = 3"

definition RETRY_DELAY_SECONDS :: nat where
  "RETRY_DELAY_SECONDS = 2"

definition OUTPUT_CHUNK_SIZE :: int where
  "OUTPUT_CHUNK_SIZE = 1"

text \<open>
  What one call of \<open>model.generate_content\<close> gives: an exception (raised by the call or
  by reading \<open>response.text\<close>), a response without candidates or without parts, or a
  response text.
\<close>

datatype response = Fails exn | Empty_response | Text string

text \<open>
  The enrichment provider.  \<open>vertex_setup\<close> is the outcome of the first \<open>try\<close> block of
  \<open>generate_block_json\<close> (the import and the decoding of the image) for an image;
  \<open>generative_model\<close> is the outcome of the statements between that block and the loop,
  which build the prompt and construct \<open>GenerativeModel(MODEL_NAME, ...)\<close> outside any
  \<open>try\<close>: the exception that the constructor raises when the provider is not
  configured, or none;
  \<open>generate_content\<close> gives the response to a request, made of the image and of the
  formatted blocks argument inside the fixed instruction text, at a given attempt.
\<close>

record vertex =
  vertex_setup :: "string \<Rightarrow> exn option"
  generative_model :: "exn option"
  generate_content :: "string \<Rightarrow> string \<Rightarrow> nat \<Rightarrow> response"

text \<open>The calls made to the provider and the delays slept, in order.\<close>

datatype event = Call nat | Sleep nat

text \<open>
  The loop \<open>for attempt in range(MAX_RETRIES)\<close>.  An empty response and an empty
  candidate string sleep and continue at every attempt; a decoding failure and an
  exception sleep and continue before the last attempt and return \<open>None\<close> at the
  last one.  Leaving the loop returns \<open>None\<close>.
\<close>

fun attempt_loop ::
  "pylib \<Rightarrow> (nat \<Rightarrow> response) \<Rightarrow> nat list \<Rightarrow> event list \<Rightarrow> pyval \<times> event list" where
  "attempt_loop lib provider [] tr = (PNone, tr)"
| "attempt_loop lib provider (attempt # rest) tr =
     (case provider attempt of
        Fails e \<Rightarrow>
          if attempt < MAX_RETRIES - 1
          then attempt_loop lib provider rest (tr @ [Call attempt, Sleep RETRY_DELAY_SECONDS])
          else (PNone, tr @ [Call attempt])
      | Empty_response \<Rightarrow>
          attempt_loop lib provider rest (tr @ [Call attempt, Sleep RETRY_DELAY_SECONDS])
      | Text raw_response_text \<Rightarrow>
          (let cleaned_json_string = clean_llm_response_to_json_string raw_response_text
           in if cleaned_json_string = []
              then attempt_loop lib provider rest (tr @ [Call attempt, Sleep RETRY_DELAY_SECONDS])
              else (case loads lib cleaned_json_string of
                      Some parsed_json \<Rightarrow> (parsed_json, tr @ [Call attempt])
                    | None \<Rightarrow>
                        if attempt < MAX_RETRIES - 1
                        then attempt_loop lib provider rest
                               (tr @ [Call attempt, Sleep RETRY_DELAY_SECONDS])
                        else (PNone, tr @ [Call attempt]))))"

text \<open>
  \<open>generate_block_json(base64_image_string, blocks_input_json_str)\<close>.  When the setup
  raises, an \<open>ImportError\<close> or any other exception alike, the fallback enrichment of
  the argument is returned and the provider is not called.  When the construction of the
  model raises, the exception leaves the function: there is neither a fallback nor an
  attempt.  Otherwise the loop over the attempts runs.
\<close>

definition generate_block_json ::
  "pylib \<Rightarrow> vertex \<Rightarrow> string \<Rightarrow> pyval \<Rightarrow> (exn + pyval) \<times> event list" where
  "generate_block_json lib vx base64_image_string blocks_input_json_str =
     (case vertex_setup vx base64_image_string of
        Some e \<Rightarrow> (Inr (create_fallback_block_json lib blocks_input_json_str), [])
      | None \<Rightarrow>
          (let prompt_text = py_str lib blocks_input_json_str
           in case generative_model vx of
                Some e \<Rightarrow> (Inl e, [])
              | None \<Rightarrow>
                  (case attempt_loop lib (generate_content vx base64_image_string prompt_text)
                          [0 ..< MAX_RETRIES] [] of
                     (result, tr) \<Rightarrow> (Inr result, tr))))"

subsection \<open>Chunked enrichment\<close>

text \<open>The comprehension \<open>{key: all_blocks[key] for key in chunk_keys}\<close>.\<close>

fun chunk_of ::
  "(pyval \<times> pyval) list \<Rightarrow> pyval list \<Rightarrow> (pyval \<times> pyval) list \<Rightarrow> exn + (pyval \<times> pyval) list" where
  "chunk_of all_blocks [] current_chunk = Inr current_chunk"
| "chunk_of all_blocks (k # chunk_keys) current_chunk =
     (case map_of all_blocks k of
        None \<Rightarrow> Inl (Exn KeyError [])
      | Some v \<Rightarrow> chunk_of all_blocks chunk_keys (dict_set current_chunk k v))"

text \<open>
  The loop over the chunk starts \<open>i\<close>.  A chunk whose result is falsy, \<open>None\<close> or empty,
  ends the function with \<open>None\<close>; an exception, also one raised by
  \<open>generate_block_json\<close>, ends it through the handler.
\<close>

fun chunk_loop ::
  "pylib \<Rightarrow> vertex \<Rightarrow> string \<Rightarrow> (pyval \<times> pyval) list \<Rightarrow> nat \<Rightarrow> nat list \<Rightarrow>
     (pyval \<times> pyval) list \<Rightarrow> event list \<Rightarrow> (exn + pyval) \<times> event list" where
  "chunk_loop lib vx img all_blocks chunk_size [] final_output tr = (Inr (PDict final_output), tr)"
| "chunk_loop lib vx img all_blocks chunk_size (i # rest) final_output tr =
     (let chunk_keys = take chunk_size (drop i (map fst all_blocks))
      in case chunk_of all_blocks chunk_keys [] of
           Inl e \<Rightarrow> (Inl e, tr)
         | Inr current_chunk \<Rightarrow>
             (let chunk_json_str = dumps lib (PDict current_chunk)
              in case generate_block_json lib vx img (PStr chunk_json_str) of
                   (Inl e, tr') \<Rightarrow> (Inl e, tr @ tr')
                 | (Inr processed_chunk, tr') \<Rightarrow>
                     if truthy processed_chunk
                     then (case py_update final_output processed_chunk of
                             Inl e \<Rightarrow> (Inl e, tr @ tr')
                           | Inr final_output' \<Rightarrow>
                               chunk_loop lib vx img all_blocks chunk_size rest final_output'
                                 (tr @ tr'))
                     else (Inr PNone, tr @ tr')))"

text \<open>
  \<open>chunk_and_process_json(base64_image_string, blocks_input_json_str, chunk_size)\<close>.
  Every exception inside the function, among them the \<open>AttributeError\<close> of \<open>keys\<close> on a
  decoded value that is not a dictionary, is turned into \<open>None\<close>.
\<close>

definition chunk_and_process_json ::
  "pylib \<Rightarrow> vertex \<Rightarrow> string \<Rightarrow> pyval \<Rightarrow> int \<Rightarrow> pyval \<times> event list" where
  "chunk_and_process_json lib vx base64_image_string blocks_input_json_str chunk_size =
     (case json_loads lib blocks_input_json_str of
        Inl e \<Rightarrow> (PNone, [])
      | Inr all_blocks \<Rightarrow>
          (case all_blocks of
             PDict d \<Rightarrow>
               (case py_range_step (length d) chunk_size of
                  Inl e \<Rightarrow> (PNone, [])
                | Inr starts \<Rightarrow>
                    (case chunk_loop lib vx base64_image_string d (nat chunk_size) starts [] [] of
                       (Inl e, tr) \<Rightarrow> (PNone, tr)
                     | (Inr result, tr) \<Rightarrow> (result, tr)))
           | _ \<Rightarrow> (PNone, [])))"


subsection \<open>Notions used to state the retry property\<close>

text \<open>
  An attempt fails when the call raises, when the response is empty, when no candidate
  string is left, or when the candidate does not decode.
\<close>

definition attempt_fails :: "pylib \<Rightarrow> response \<Rightarrow> bool" where
  "attempt_fails lib r =
     (case r of
        Fails e \<Rightarrow> True
      | Empty_response \<Rightarrow> True
      | Text raw \<Rightarrow>
          clean_llm_response_to_json_string raw = []
          \<or> loads lib (clean_llm_response_to_json_string raw) = None)"

text \<open>An attempt yields \<open>v\<close> when its candidate string decodes to \<open>v\<close>.\<close>

definition attempt_yields :: "pylib \<Rightarrow> response \<Rightarrow> pyval \<Rightarrow> bool" where
  "attempt_yields lib r v =
     (case r of
        Text raw \<Rightarrow>
          clean_llm_response_to_json_string raw \<noteq> []
          \<and> loads lib (clean_llm_response_to_json_string raw) = Some v
      | _ \<Rightarrow> False)"

definition is_call :: "event \<Rightarrow> bool" where
  "is_call e = (case e of Call a \<Rightarrow> True | Sleep d \<Rightarrow> False)"

text \<open>
  A codec that knows a few texts: the object of the extraction example, the empty
  object, the block mapping of the fallback example and its enrichment, and a mapping
  of two blocks with its second one-block chunk.
\<close>

definition hi_blocks :: pyval where
  "hi_blocks = PDict [(PStr ''0'', PDict [(PStr ''text'', PStr ''Hi'')])]"

definition hi_enriched :: pyval where
  "hi_enriched =
     PDict [(PStr ''0'',
       PDict [(PStr ''text'', PStr ''Hi''),
              (PStr ''words'', PList []),
              (PStr ''bounding_boxes'', PList []),
              (PStr ''ssml'', PStr (''<speak><prosody rate='' @ [CHR 0x27] @ ''slow'' @ [CHR 0x27]
                                     @ ''>Hi</prosody></speak>'')),
              (PStr ''dialog'', PStr ''false''),
              (PStr ''person_type'', PStr ''null'')])]"

definition hi_enriched_text :: string where
  \<open>hi_enriched_text =
     ''{"0": {"text": "Hi", "words": [], "bounding_boxes": [], "ssml": "<speak><prosody rate=''
       @ [CHR 0x27] @ ''slow'' @ [CHR 0x27]
       @ ''>Hi</prosody></speak>", "dialog": "false", "person_type": "null"}}''\<close>

definition yo_blocks :: pyval where
  "yo_blocks = PDict [(PStr ''1'', PDict [(PStr ''text'', PStr ''Yo'')])]"

definition two_blocks :: "(pyval \<times> pyval) list" where
  "two_blocks = [(PStr ''0'', PDict [(PStr ''text'', PStr ''Hi'')]),
                 (PStr ''1'', PDict [(PStr ''text'', PStr ''Yo'')])]"

definition demo_lib :: pylib where
  \<open>demo_lib =
     \<lparr>loads = (\<lambda>s. if s = ''{"a":1}'' then Some (PDict [(PStr ''a'', PInt 1)])
                   else if s = ''{}'' then Some (PDict [])
                   else if s = ''{"0": {"text": "Hi"}}'' then Some hi_blocks
                   else if s = ''{"1": {"text": "Yo"}}'' then Some yo_blocks
                   else if s = ''{"0": {"text": "Hi"}, "1": {"text": "Yo"}}'' then Some (PDict two_blocks)
                   else if s = hi_enriched_text then Some hi_enriched
                   else None),
      dumps = (\<lambda>v. if v = hi_blocks then ''{"0": {"text": "Hi"}}''
                   else if v = yo_blocks then ''{"1": {"text": "Yo"}}''
                   else if v = PDict two_blocks then ''{"0": {"text": "Hi"}, "1": {"text": "Yo"}}''
                   else []),
      repr = (\<lambda>v. [])\<rparr>\<close>

text \<open>
  A provider that raises at the first attempt, answers with prose at the second and
  with the fenced object at the third; and a provider that raises at every attempt.
\<close>

definition flaky_vertex :: vertex where
  "flaky_vertex =
     \<lparr>vertex_setup = (\<lambda>img. None),
      generative_model = None,
      generate_content = (\<lambda>img prompt attempt.
         if attempt = 0 then Fails (Exn RuntimeError ''unavailable'')
         else if attempt = 1 then Text ''no json here''
         else Text fenced_response)\<rparr>"

definition down_vertex :: vertex where
  "down_vertex =
     \<lparr>vertex_setup = (\<lambda>img. None),
      generative_model = None,
      generate_content = (\<lambda>img prompt attempt. Fails (Exn RuntimeError ''unavailable''))\<rparr>"

text \<open>A provider that is not configured: the construction of the model raises.\<close>

definition unconfigured_vertex :: vertex where
  "unconfigured_vertex =
     \<lparr>vertex_setup = (\<lambda>img. None),
      generative_model = Some (Exn RuntimeError ''provider not configured''),
      generate_content = (\<lambda>img prompt attempt. Empty_response)\<rparr>"

text \<open>
  A provider that answers every request with the blocks it was given, and a provider
  that does so except for the chunk of block 1, which it answers with the empty object.
\<close>

definition echo_vertex :: vertex where
  "echo_vertex =
     \<lparr>vertex_setup = (\<lambda>img. None),
      generative_model = None,
      generate_content = (\<lambda>img prompt attempt. Text prompt)\<rparr>"

definition dropping_vertex :: vertex where
  \<open>dropping_vertex =
     \<lparr>vertex_setup = (\<lambda>img. None),
      generative_model = None,
      generate_content = (\<lambda>img prompt attempt.
         if prompt = ''{"1": {"text": "Yo"}}'' then Text ''{}'' else Text prompt)\<rparr>\<close>


subsection \<open>Notions used to state the chunking property\<close>

text \<open>The consecutive slices of length \<open>c\<close> of a list; the last one may be shorter.\<close>

definition chunks_of :: "nat \<Rightarrow> 'a list \<Rightarrow> 'a list list" where
  "chunks_of c xs = map (\<lambda>j. take c (drop (j * c) xs)) [0 ..< (length xs + c - 1) div c]"

text \<open>The entries of a dictionary value.\<close>

definition dict_items :: "pyval \<Rightarrow> (pyval \<times> pyval) list" where
  "dict_items v = (case v of PDict e \<Rightarrow> e | _ \<Rightarrow> [])"

text \<open>
  The result of a chunk: what \<open>generate_block_json\<close> returns for the JSON text of the
  chunk, and \<open>None\<close> when that call raises.
\<close>

definition chunk_result :: "pylib \<Rightarrow> vertex \<Rightarrow> string \<Rightarrow> (pyval \<times> pyval) list \<Rightarrow> pyval" where
  "chunk_result lib vx img ch =
     (case fst (generate_block_json lib vx img (PStr (dumps lib (PDict ch)))) of
        Inl e \<Rightarrow> PNone
      | Inr processed_chunk \<Rightarrow> processed_chunk)"


section \<open>Synthesis and persistence (saving_utils.py)\<close>

subsection \<open>Files and paths\<close>

text \<open>
  The file system is the sequence of writes and removals made so far.  A file holds
  bytes, or the JSON document that \<open>json.dump\<close> writes for a value.  Writing into the
  output directory is taken to succeed.
\<close>

datatype file_content = Bytes string | Json pyval

datatype fs_op = Write string file_content | Remove string

fun apply_fs_op :: "fs_op \<Rightarrow> (string \<rightharpoonup> file_content) \<Rightarrow> (string \<rightharpoonup> file_content)" where
  "apply_fs_op (Write p c) m = m(p \<mapsto> c)"
| "apply_fs_op (Remove p) m = m(p := None)"

definition file_at :: "fs_op list \<Rightarrow> string \<Rightarrow> file_content option" where
  "file_at ops p = fold apply_fs_op ops Map.empty p"

text \<open>\<open>os.path.join(a, b)\<close> with the separator \<open>/\<close>.\<close>

definition path_join :: "string \<Rightarrow> string \<Rightarrow> string" where
  "path_join a b =
     (if startswith b ''/'' then b
      else if a = [] \<or> endswith a ''/'' then a @ b
      else a @ ''/'' @ b)"

text \<open>
  \<open>os.path.splitext(p)[0]\<close>: the path up to its last dot, when that dot lies in the
  last component behind a character that is not a dot.
\<close>

definition splitext_root :: "string \<Rightarrow> string" where
  "splitext_root p =
     (let sep_index = py_rfind (CHR ''/'') p;
          dot_index = py_rfind (CHR ''.'') p
      in if dot_index > sep_index
            \<and> list_ex (\<lambda>c. c \<noteq> CHR ''.'') (py_slice p (sep_index + 1) dot_index)
         then take (nat dot_index) p else p)"

subsection \<open>Operations on arbitrary values\<close>

definition type_name :: "pyval \<Rightarrow> string" where
  "type_name v =
     (case v of
        PNone \<Rightarrow> ''NoneType'' | PBool b \<Rightarrow> ''bool'' | PInt i \<Rightarrow> ''int'' | PFloat r \<Rightarrow> ''float''
      | PStr s \<Rightarrow> ''str'' | PList xs \<Rightarrow> ''list'' | PTuple xs \<Rightarrow> ''tuple'' | PDict d \<Rightarrow> ''dict'')"

definition quoted :: "string \<Rightarrow> string" where
  "quoted s = [CHR 0x27] @ s @ [CHR 0x27]"

definition is_substring :: "string \<Rightarrow> string \<Rightarrow> bool" where
  "is_substring t s = list_ex (\<lambda>i. take (length t) (drop i s) = t) [0 ..< Suc (length s)]"

text \<open>\<open>x in c\<close>: key membership for a dictionary, element membership for a list or a
  tuple, the substring test for strings.\<close>

definition py_contains :: "pyval \<Rightarrow> pyval \<Rightarrow> exn + bool" where
  "py_contains x c =
     (case c of
        PDict d \<Rightarrow>
          if hashable x then Inr (x \<in> set (map fst d))
          else Inl (Exn TypeError (''unhashable type: '' @ quoted (type_name x)))
      | PList xs \<Rightarrow> Inr (x \<in> set xs)
      | PTuple xs \<Rightarrow> Inr (x \<in> set xs)
      | PStr s \<Rightarrow>
          (case x of
             PStr t \<Rightarrow> Inr (is_substring t s)
           | _ \<Rightarrow> Inl (Exn TypeError (''in <string> requires string as left operand, not ''
                                       @ type_name x)))
      | _ \<Rightarrow> Inl (Exn TypeError (''argument of type '' @ quoted (type_name c)
                                  @ '' is not iterable'')))"

text \<open>\<open>block_json[k]["timing"] = marks\<close> for a string \<open>k\<close>.\<close>

definition set_timing :: "pyval \<Rightarrow> string \<Rightarrow> pyval \<Rightarrow> exn + pyval" where
  "set_timing block_json k marks =
     (case block_json of
        PDict d \<Rightarrow>
          (case map_of d (PStr k) of
             None \<Rightarrow> Inl (Exn KeyError (quoted k))
           | Some v \<Rightarrow>
               (case v of
                  PDict block \<Rightarrow>
                    Inr (PDict (dict_set d (PStr k) (PDict (dict_set block (PStr ''timing'') marks))))
                | _ \<Rightarrow> Inl (Exn TypeError (quoted (type_name v)
                                            @ '' object does not support item assignment''))))
      | _ \<Rightarrow> Inl (Exn TypeError (type_name block_json @ '' indices must be integers'')))"

text \<open>\<open>s.lower()\<close> on the characters below 256.\<close>

definition py_lower_char :: "char \<Rightarrow> char" where
  "py_lower_char c =
     (let n = (of_char c :: nat)
      in if (65 \<le> n \<and> n \<le> 90) \<or> (192 \<le> n \<and> n \<le> 222 \<and> n \<noteq> 215)
         then char_of (n + 32) else c)"

definition py_lower :: "string \<Rightarrow> string" where
  "py_lower s = map py_lower_char s"

subsection \<open>Artifacts of a page\<close>

definition PERSON_TYPE_TO_VOICE :: "(string \<times> string) list" where
  "PERSON_TYPE_TO_VOICE =
     [(''young boy'', ''Justin''), (''old man'', ''Matthew''), (''young girl'', ''Ivy''),
      (''old woman'', ''Kimberly''), (''middle aged man'', ''Joey''),
      (''middle aged woman'', ''Joanna'')]"

text \<open>\<open>save_annotated_image\<close> only computes the path; saving is disabled in the source.\<close>

definition save_annotated_image :: "string \<Rightarrow> string \<Rightarrow> nat \<Rightarrow> string" where
  "save_annotated_image output_dir output_name page_number =
     path_join output_dir
       (output_name @ ''_annotated_page_'' @ str_of_nat page_number @ ''_blocks.png'')"

definition save_block_details_as_json ::
  "pyval \<Rightarrow> string \<Rightarrow> string \<Rightarrow> nat \<Rightarrow> fs_op list \<Rightarrow> string \<times> fs_op list" where
  "save_block_details_as_json block_details output_dir output_name page_number fs =
     (let json_path = path_join output_dir
            (output_name @ ''_page_'' @ str_of_nat page_number @ ''_blocks.json'')
      in (json_path, fs @ [Write json_path (Json block_details)]))"

text \<open>
  The synthesis provider: the audio stream for a markup text and a voice, and the lines
  of the speech-mark stream for them.  Either call may raise.
\<close>

record polly =
  synthesize_audio :: "pyval \<Rightarrow> string \<Rightarrow> exn + string"
  synthesize_marks :: "pyval \<Rightarrow> string \<Rightarrow> exn + string list"

text \<open>
  The voice for a person type: \<open>person_type.lower()\<close> is looked up when the person type is
  truthy, and \<open>None\<close> is looked up otherwise; a missing key gives \<open>Joanna\<close>.  Only a
  string has the method \<open>lower\<close>.
\<close>

definition voice_for :: "pyval \<Rightarrow> exn + string" where
  "voice_for person_type =
     (if truthy person_type
      then (case person_type of
              PStr s \<Rightarrow> Inr (dict_get PERSON_TYPE_TO_VOICE (py_lower s) ''Joanna'')
            | _ \<Rightarrow> Inl (Exn AttributeError (quoted (type_name person_type)
                                            @ '' object has no attribute '' @ quoted ''lower'')))
      else Inr ''Joanna'')"

text \<open>The closing step of both branches: \<open>if str(block_key) in block_json: ...\<close>.\<close>

definition attach_timing :: "pylib \<Rightarrow> pyval \<Rightarrow> pyval \<Rightarrow> pyval \<Rightarrow> exn + pyval" where
  "attach_timing lib block_json block_key marks =
     (case py_contains (PStr (py_str lib block_key)) block_json of
        Inl e \<Rightarrow> Inl e
      | Inr present \<Rightarrow>
          if present then set_timing block_json (py_str lib block_key) marks
          else Inr block_json)"

text \<open>
  \<open>save_audio_and_speech_marks(polly_client, block_id, ssml_output, output_dir,
  person_type, block_json, block_key)\<close>.  The result is the pair of paths, or the
  exception raised; the block mapping and the file system are mutated in place and are
  returned as they are when the function ends.
\<close>

definition save_audio_and_speech_marks ::
  "pylib \<Rightarrow> polly option \<Rightarrow> string \<Rightarrow> pyval \<Rightarrow> string \<Rightarrow> pyval \<Rightarrow> pyval \<Rightarrow> pyval \<Rightarrow>
     fs_op list \<Rightarrow> (exn + string \<times> string) \<times> pyval \<times> fs_op list" where
  "save_audio_and_speech_marks lib polly_client block_id ssml_output output_dir person_type
       block_json block_key fs =
     (let audio_path = path_join output_dir (''block_'' @ block_id @ ''_audio.mp3'');
          speech_marks_path = path_join output_dir (''block_'' @ block_id @ ''_speech_marks.json'')
      in case polly_client of
           None \<Rightarrow>
             (let fs1 = fs @ [Write audio_path (Bytes [])];
                  fs2 = fs1 @ [Write speech_marks_path (Json (PList []))]
              in case attach_timing lib block_json block_key (PList []) of
                   Inl e \<Rightarrow> (Inl e, block_json, fs2)
                 | Inr block_json' \<Rightarrow> (Inr (audio_path, speech_marks_path), block_json', fs2))
         | Some client \<Rightarrow>
             (case voice_for person_type of
                Inl e \<Rightarrow> (Inl e, block_json, fs)
              | Inr voice_id \<Rightarrow>
                  (case synthesize_audio client ssml_output voice_id of
                     Inl e \<Rightarrow> (Inl e, block_json, fs)
                   | Inr audio \<Rightarrow>
                       (let fs1 = fs @ [Write audio_path (Bytes audio)]
                        in case synthesize_marks client ssml_output voice_id of
                             Inl e \<Rightarrow> (Inl e, block_json, fs1)
                           | Inr lines \<Rightarrow>
                               (let speech_marks =
                                      List.map_filter (\<lambda>line. loads lib (py_strip line)) lines;
                                    fs2 = fs1 @ [Write speech_marks_path (Json (PList speech_marks))]
                                in case attach_timing lib block_json block_key (PList speech_marks) of
                                     Inl e \<Rightarrow> (Inl e, block_json, fs2)
                                   | Inr block_json' \<Rightarrow>
                                       (Inr (audio_path, speech_marks_path), block_json', fs2))))))"


section \<open>The request handler (tts_service.py)\<close>

subsection \<open>External collaborators\<close>

text \<open>
  A page of the opened document: its words (loading the page, reading its words and
  rendering it may raise), and the PNG bytes with their base64 text that
  \<open>extract_page_as_base64\<close> renders.
\<close>

record page =
  page_words :: "exn + word list"
  page_png :: "exn + string \<times> string"

text \<open>The uploaded file: its name and what reading it gives.\<close>

record upload =
  filename :: string
  read_upload :: "exn + string"

text \<open>
  What the environment does during one request: the formatted time stamp, creating the
  output directory, creating the temporary file (its name), opening the document that
  was written into it, the random draws for the palette of a page, and removing the
  temporary file.
\<close>

record world =
  now :: string
  makedirs :: "exn option"
  named_temporary_file :: "exn + string"
  fitz_open :: "string \<Rightarrow> exn + page list"
  palette_draws :: "nat \<Rightarrow> int \<Rightarrow> rgb"
  os_remove :: "exn option"

text \<open>
  The effects of a request: the file operations, the provider calls and delays, and the
  messages logged by the handlers of \<open>process_tts_request\<close> and for blocks without
  markup (informational messages of the normal path are not recorded).
\<close>

datatype log_entry = Log_info string | Log_warning string | Log_error string

record state =
  st_files :: "fs_op list"
  st_events :: "event list"
  st_log :: "log_entry list"

subsection \<open>The block mapping as a Python value\<close>

definition py_of_rect :: "rect \<Rightarrow> pyval" where
  "py_of_rect r =
     (case r of ((x0, y0), (x1, y1)) \<Rightarrow>
        PList [PTuple [PFloat x0, PFloat y0], PTuple [PFloat x1, PFloat y1]])"

definition py_of_block :: "block \<Rightarrow> pyval" where
  "py_of_block b =
     PDict [(PStr ''text'', PStr (btext b)),
            (PStr ''words'', PList (map PStr (words b))),
            (PStr ''bounding_boxes'', PList (map py_of_rect (bounding_boxes b)))]"

definition py_of_block_details :: "block_details \<Rightarrow> pyval" where
  "py_of_block_details details = PDict (map (\<lambda>(k, b). (PInt k, py_of_block b)) details)"

subsection \<open>One page\<close>

definition extract_page_as_base64 ::
  "page \<Rightarrow> string \<Rightarrow> string \<Rightarrow> nat \<Rightarrow> fs_op list \<Rightarrow> (exn + string \<times> string) \<times> fs_op list" where
  "extract_page_as_base64 pg output_dir output_name page_number fs =
     (case page_png pg of
        Inl e \<Rightarrow> (Inl e, fs)
      | Inr (image_bytes, base64_image_string) \<Rightarrow>
          (let image_path = path_join output_dir
                 (output_name @ ''_page_'' @ str_of_nat page_number @ ''.png'')
           in (Inr (base64_image_string, image_path), fs @ [Write image_path (Bytes image_bytes)])))"

text \<open>
  \<open>block_json.items() if isinstance(block_json, dict) else enumerate(block_json)\<close>.
\<close>

definition enumerate :: "pyval list \<Rightarrow> (pyval \<times> pyval) list" where
  "enumerate xs = zip (map (\<lambda>i. PInt (int i)) [0 ..< length xs]) xs"

definition entries_of :: "pyval \<Rightarrow> exn + (pyval \<times> pyval) list" where
  "entries_of block_json =
     (case block_json of
        PDict d \<Rightarrow> Inr d
      | PList xs \<Rightarrow> Inr (enumerate xs)
      | PTuple xs \<Rightarrow> Inr (enumerate xs)
      | PStr s \<Rightarrow> Inr (enumerate (map (\<lambda>c. PStr [c]) s))
      | _ \<Rightarrow> Inl (Exn TypeError (quoted (type_name block_json) @ '' object is not iterable'')))"

text \<open>
  One round of the loop over the entries.  The record of a block is read from the
  mapping as it is when the block's turn comes, because earlier rounds have mutated the
  mapping.  The variables \<open>block_json\<close>, \<open>audio_metadata\<close> and \<open>vertex_path\<close> are passed
  on; \<open>vertex_path\<close> is unbound until a block has been synthesised.
\<close>

definition synth_block ::
  "pylib \<Rightarrow> polly option \<Rightarrow> string \<Rightarrow> string \<Rightarrow> nat \<Rightarrow> pyval \<times> pyval \<Rightarrow>
     pyval \<times> (pyval \<times> pyval) list \<times> string option \<Rightarrow> state \<Rightarrow>
     (exn + pyval \<times> (pyval \<times> pyval) list \<times> string option) \<times> state" where
  "synth_block lib polly_client output_dir fname page_number entry vars st =
     (case entry of (block_id, data0) \<Rightarrow>
      (case vars of (block_json, audio_metadata, vertex_path) \<Rightarrow>
       (let data = (case block_json of PDict d \<Rightarrow> dict_get d block_id data0 | _ \<Rightarrow> data0)
        in case data of
             PDict block_fields \<Rightarrow>
               (let ssml = dict_get block_fields (PStr ''ssml'') PNone
                in if \<not> truthy ssml
                   then (Inr (block_json, audio_metadata, vertex_path),
                         st\<lparr>st_log := st_log st @
                            [Log_warning (''No SSML found for block '' @ py_str lib block_id
                                          @ '' on page '' @ str_of_nat page_number)]\<rparr>)
                   else (case save_audio_and_speech_marks lib polly_client
                                (str_of_nat page_number @ ''_'' @ py_str lib block_id) ssml output_dir
                                (dict_get block_fields (PStr ''person_type'') PNone) block_json block_id
                                (st_files st) of
                           (Inl e, block_json', fs') \<Rightarrow> (Inl e, st\<lparr>st_files := fs'\<rparr>)
                         | (Inr (audio_path, marks_path), block_json', fs') \<Rightarrow>
                             (let new_vertex_path = path_join output_dir
                                    (fname @ ''_page_'' @ str_of_nat page_number
                                       @ ''_trimmed_blocks.json'');
                                  fs'' = fs' @ [Write new_vertex_path (Json block_json')];
                                  audio_metadata' = dict_set audio_metadata block_id
                                    (PDict [(PStr ''audio_path'', PStr audio_path),
                                            (PStr ''speech_marks_path'', PStr marks_path)])
                              in (Inr (block_json', audio_metadata', Some new_vertex_path),
                                  st\<lparr>st_files := fs''\<rparr>))))
           | _ \<Rightarrow> (Inl (Exn AttributeError (quoted (type_name data) @ '' object has no attribute ''
                                             @ quoted ''get'')), st))))"

text \<open>The loop over the entries; an exception ends it.\<close>

fun synth_loop ::
  "pylib \<Rightarrow> polly option \<Rightarrow> string \<Rightarrow> string \<Rightarrow> nat \<Rightarrow> (pyval \<times> pyval) list \<Rightarrow>
     pyval \<times> (pyval \<times> pyval) list \<times> string option \<Rightarrow> state \<Rightarrow>
     (exn + pyval \<times> (pyval \<times> pyval) list \<times> string option) \<times> state" where
  "synth_loop lib polly_client output_dir fname page_number [] vars st = (Inr vars, st)"
| "synth_loop lib polly_client output_dir fname page_number (entry # rest) vars st =
     (case synth_block lib polly_client output_dir fname page_number entry vars st of
        (Inl e, st') \<Rightarrow> (Inl e, st')
      | (Inr vars', st') \<Rightarrow>
          synth_loop lib polly_client output_dir fname page_number rest vars' st')"

text \<open>
  The body of the loop over the pages.  The enrichment is called with the block mapping
  itself, as the source does, and an exception that it raises is the page's.  The result
  is the page's descriptor and the value of \<open>vertex_path\<close> for the next page.
\<close>

definition process_page ::
  "pylib \<Rightarrow> vertex \<Rightarrow> polly option \<Rightarrow> world \<Rightarrow> string \<Rightarrow> string \<Rightarrow> nat \<Rightarrow> page \<Rightarrow>
     string option \<Rightarrow> state \<Rightarrow> (exn + pyval \<times> string option) \<times> state" where
  "process_page lib vx polly_client w fname output_dir page_number pg vertex_path st =
     (case page_words pg of
        Inl e \<Rightarrow> (Inl e, st)
      | Inr ws \<Rightarrow>
          (case extract_page_as_base64 pg output_dir fname page_number (st_files st) of
             (Inl e, fs1) \<Rightarrow> (Inl e, st\<lparr>st_files := fs1\<rparr>)
           | (Inr (base64_img, image_path), fs1) \<Rightarrow>
               (case extract_blocks (palette_draws w page_number) ws of
                  Inl e \<Rightarrow> (Inl e, st\<lparr>st_files := fs1\<rparr>)
                | Inr (img, block_details) \<Rightarrow>
                    (let annotated_image_path = save_annotated_image output_dir fname page_number;
                         (json_path, fs2) = save_block_details_as_json
                            (py_of_block_details block_details) output_dir fname page_number fs1;
                         (generated, evs) = generate_block_json lib vx base64_img
                            (py_of_block_details block_details);
                         st2 = st\<lparr>st_files := fs2, st_events := st_events st @ evs\<rparr>
                     in case generated of
                          Inl e \<Rightarrow> (Inl e, st2)
                        | Inr block_json \<Rightarrow>
                            (case entries_of block_json of
                               Inl e \<Rightarrow> (Inl e, st2)
                             | Inr entries \<Rightarrow>
                                 (case synth_loop lib polly_client output_dir fname page_number
                                         entries (block_json, [], vertex_path) st2 of
                                    (Inl e, st3) \<Rightarrow> (Inl e, st3)
                                  | (Inr (block_json', audio_metadata, vertex_path'), st3) \<Rightarrow>
                                      (let metadata_path = path_join output_dir
                                             (''page_'' @ str_of_nat page_number
                                                @ ''_audio_speech_marks_metadata.json'');
                                           st4 = st3\<lparr>st_files := st_files st3 @
                                                   [Write metadata_path (Json (PDict audio_metadata))]\<rparr>
                                       in case vertex_path' of
                                            None \<Rightarrow>
                                              (Inl (Exn UnboundLocalError
                                                      (''cannot access local variable ''
                                                         @ quoted ''vertex_path''
                                                         @ '' where it is not associated with a value'')),
                                               st4)
                                          | Some vp \<Rightarrow>
                                              (Inr (PDict
                                                      [(PStr ''page_number'', PInt (int page_number)),
                                                       (PStr ''annotated_image_path'', PStr annotated_image_path),
                                                       (PStr ''json_path'', PStr json_path),
                                                       (PStr ''vertex_trimmed_path'', PStr vp),
                                                       (PStr ''metadata_path'', PStr metadata_path)],
                                                    Some vp),
                                               st4))))))))"

subsection \<open>The request\<close>

fun pages_loop ::
  "pylib \<Rightarrow> vertex \<Rightarrow> polly option \<Rightarrow> world \<Rightarrow> string \<Rightarrow> string \<Rightarrow> nat \<Rightarrow> page list \<Rightarrow>
     pyval list \<Rightarrow> string option \<Rightarrow> state \<Rightarrow> (exn + pyval list) \<times> state" where
  "pages_loop lib vx polly_client w fname output_dir page_number [] results vertex_path st =
     (Inr results, st)"
| "pages_loop lib vx polly_client w fname output_dir page_number (pg # pgs) results vertex_path st =
     (case process_page lib vx polly_client w fname output_dir page_number pg vertex_path st of
        (Inl e, st') \<Rightarrow> (Inl e, st')
      | (Inr (page_result, vertex_path'), st') \<Rightarrow>
          pages_loop lib vx polly_client w fname output_dir (Suc page_number) pgs
            (results @ [page_result]) vertex_path' st')"

text \<open>
  The \<open>try\<close> block of \<open>process_tts_request\<close>: the value it returns or the exception it
  raises, the name of the temporary file once \<open>temp_pdf\<close> has been assigned, and the
  state reached.
\<close>

definition request_body ::
  "pylib \<Rightarrow> vertex \<Rightarrow> polly option \<Rightarrow> world \<Rightarrow> upload \<Rightarrow> state \<Rightarrow>
     (exn + pyval) \<times> string option \<times> state" where
  "request_body lib vx polly_client w pdf_file st =
     (let book_name = splitext_root (filename pdf_file);
          output_dir = path_join ''output'' (book_name @ ''-'' @ now w)
      in case makedirs w of
           Some e \<Rightarrow> (Inl e, None, st)
         | None \<Rightarrow>
             (case named_temporary_file w of
                Inl e \<Rightarrow> (Inl e, None, st)
              | Inr pdf_path \<Rightarrow>
                  (let st1 = st\<lparr>st_files := st_files st @ [Write pdf_path (Bytes [])]\<rparr>
                   in case read_upload pdf_file of
                        Inl e \<Rightarrow> (Inl e, Some pdf_path, st1)
                      | Inr content \<Rightarrow>
                          (let st2 = st1\<lparr>st_files := st_files st1 @ [Write pdf_path (Bytes content)]\<rparr>
                           in case fitz_open w content of
                                Inl e \<Rightarrow> (Inl e, Some pdf_path, st2)
                              | Inr pages \<Rightarrow>
                                  (case pages_loop lib vx polly_client w (filename pdf_file)
                                          output_dir 0 pages [] None st2 of
                                     (Inl e, st3) \<Rightarrow> (Inl e, Some pdf_path, st3)
                                   | (Inr results, st3) \<Rightarrow>
                                       (Inr (PDict
                                               [(PStr ''status'', PStr ''success''),
                                                (PStr ''message'',
                                                   PStr (''Processed '' @ str_of_nat (length results)
                                                         @ '' page(s).'')),
                                                (PStr ''results'', PList results)]),
                                        Some pdf_path, st3))))))"

text \<open>What a call of the handler ends with: a returned value or an exception.\<close>

datatype outcome = Returned pyval | Raised exn

text \<open>The dictionary built by the handler \<open>except Exception as e\<close>.\<close>

definition error_result :: "exn \<Rightarrow> pyval" where
  "error_result e =
     PDict [(PStr ''status'', PStr ''error''),
            (PStr ''message'', PStr (exn_str e)),
            (PStr ''errors'', PDict [(PStr ''process_tts_request'', PStr (exn_str e))])]"

text \<open>
  \<open>process_tts_request(pdf_file)\<close>: the \<open>try\<close> block, the handler that turns an exception
  into the error dictionary, and the \<open>finally\<close> block, which removes the temporary file
  when \<open>temp_pdf\<close> is set and handles \<open>PermissionError\<close> only; any other exception of
  the removal leaves the function in place of the returned value.
\<close>

definition process_tts_request ::
  "pylib \<Rightarrow> vertex \<Rightarrow> polly option \<Rightarrow> world \<Rightarrow> upload \<Rightarrow> state \<Rightarrow> outcome \<times> state" where
  "process_tts_request lib vx polly_client w pdf_file st =
     (case request_body lib vx polly_client w pdf_file st of
        (r, temp_pdf, st1) \<Rightarrow>
          (let (result, st2) =
                 (case r of
                    Inr response \<Rightarrow> (response, st1)
                  | Inl e \<Rightarrow>
                      (error_result e,
                       st1\<lparr>st_log := st_log st1 @
                             [Log_error (''Exception in process_tts_request: '' @ exn_str e)]\<rparr>))
           in case temp_pdf of
                None \<Rightarrow> (Returned result, st2)
              | Some name \<Rightarrow>
                  (case os_remove w of
                     None \<Rightarrow>
                       (Returned result,
                        st2\<lparr>st_files := st_files st2 @ [Remove name],
                            st_log := st_log st2 @ [Log_info (''Deleted temporary PDF file: '' @ name)]\<rparr>)
                   | Some e \<Rightarrow>
                       if exn_cls e = PermissionError
                       then (Returned result,
                             st2\<lparr>st_log := st_log st2 @
                                   [Log_warning (''Failed to delete temp file '' @ name @ '': ''
                                                 @ exn_str e)]\<rparr>)
                       else (Raised e, st2))))"


subsection \<open>Notions and scenarios used to state the request properties\<close>

text \<open>What the handler returns for the outcome of the \<open>try\<close> block.\<close>

definition body_result :: "exn + pyval \<Rightarrow> pyval" where
  "body_result r = (case r of Inr response \<Rightarrow> response | Inl e \<Rightarrow> error_result e)"

text \<open>
  An upload \<open>book.pdf\<close>; a page with the four words of \<open>demo_words\<close>, which form the two
  blocks 0 and 1 of \<open>demo_blocks\<close>; and a page that cannot be loaded.
\<close>

definition demo_blocks :: block_details where
  "demo_blocks =
     [(0, \<lparr>btext = ''Once upon a'', words = [''Once'', ''upon'', ''a''],
            bounding_boxes = [((0, 0), (1, 1)), ((1, 0), (2, 1)), ((2, 0), (3, 1))]\<rparr>),
      (1, \<lparr>btext = ''Hi'', words = [''Hi''], bounding_boxes = [((0, 2), (1, 3))]\<rparr>)]"

definition demo_upload :: upload where
  "demo_upload = \<lparr>filename = ''book.pdf'', read_upload = Inr ''%PDF-1.7''\<rparr>"

definition good_page :: page where
  "good_page = \<lparr>page_words = Inr demo_words, page_png = Inr (''PNG'', ''UE5H'')\<rparr>"


text \<open>
  Environments: a document with the good page only, where everything succeeds; the same
  with the bad page behind the good one, also with a removal that raises
  \<open>FileNotFoundError\<close>; and the first one with a removal that raises
  \<open>PermissionError\<close> or \<open>FileNotFoundError\<close>, and with a temporary file that cannot be
  created.
\<close>

definition demo_world :: world where
  "demo_world =
     \<lparr>now = ''01-02-2025-10-00-00'',
      makedirs = None,
      named_temporary_file = Inr ''/tmp/tmpa1b2.pdf'',
      fitz_open = (\<lambda>content. Inr [good_page]),
      palette_draws = (\<lambda>page_number block_no. (0, 0, 0)),
      os_remove = None\<rparr>"



definition locked_world :: world where
  "locked_world = demo_world\<lparr>os_remove := Some (Exn PermissionError ''file is in use'')\<rparr>"

definition vanished_world :: world where
  "vanished_world = demo_world\<lparr>os_remove := Some (Exn FileNotFoundError ''No such file'')\<rparr>"

definition no_temp_world :: world where
  "no_temp_world = demo_world\<lparr>named_temporary_file := Inl (Exn OSError ''No space left'')\<rparr>"

definition empty_state :: state where
  "empty_state = \<lparr>st_files = [], st_events = [], st_log = []\<rparr>"

text \<open>The enrichment provider is unavailable: the setup raises, which selects the fallback.\<close>

definition fallback_vertex :: vertex where
  "fallback_vertex =
     \<lparr>vertex_setup = (\<lambda>img. Some (Exn ImportError ''No module named vertexai'')),
      generative_model = None,
      generate_content = (\<lambda>img prompt attempt. Empty_response)\<rparr>"

text \<open>
  The two blocks of the good page with the three fields that an enrichment adds, as the
  JSON decoder returns them; a provider whose answer decodes to them; and the codec
  that decodes that answer.
\<close>

definition enriched_0 :: "(pyval \<times> pyval) list" where
  "enriched_0 =
     [(PStr ''text'', PStr ''Once upon a''),
      (PStr ''words'', PList [PStr ''Once'', PStr ''upon'', PStr ''a'']),
      (PStr ''bounding_boxes'',
         PList [PList [PList [PFloat 0, PFloat 0], PList [PFloat 1, PFloat 1]],
                PList [PList [PFloat 1, PFloat 0], PList [PFloat 2, PFloat 1]],
                PList [PList [PFloat 2, PFloat 0], PList [PFloat 3, PFloat 1]]]),
      (PStr ''ssml'', PStr (ssml_wrap ''Once upon a'')),
      (PStr ''dialog'', PStr ''false''),
      (PStr ''person_type'', PStr ''null'')]"

definition enriched_1 :: "(pyval \<times> pyval) list" where
  "enriched_1 =
     [(PStr ''text'', PStr ''Hi''),
      (PStr ''words'', PList [PStr ''Hi'']),
      (PStr ''bounding_boxes'',
         PList [PList [PList [PFloat 0, PFloat 2], PList [PFloat 1, PFloat 3]]]),
      (PStr ''ssml'', PStr (ssml_wrap ''Hi'')),
      (PStr ''dialog'', PStr ''false''),
      (PStr ''person_type'', PStr ''null'')]"

definition enriched_members :: string where
  \<open>enriched_members =
     ''"0": {"text": "Once upon a", "words": ["Once", "upon", "a"], ''
     @ ''"bounding_boxes": [[[0.0, 0.0], [1.0, 1.0]], [[1.0, 0.0], [2.0, 1.0]], [[2.0, 0.0], [3.0, 1.0]]], ''
     @ ''"ssml": "<speak><prosody rate='' @ [CHR 0x27] @ ''slow'' @ [CHR 0x27]
     @ ''>Once upon a</prosody></speak>", "dialog": "false", "person_type": "null"}, ''
     @ ''"1": {"text": "Hi", "words": ["Hi"], "bounding_boxes": [[[0.0, 2.0], [1.0, 3.0]]], ''
     @ ''"ssml": "<speak><prosody rate='' @ [CHR 0x27] @ ''slow'' @ [CHR 0x27]
     @ ''>Hi</prosody></speak>", "dialog": "false", "person_type": "null"}''\<close>

definition enriched_text :: string where
  "enriched_text = [CHR ''{''] @ enriched_members @ [CHR ''}'']"

definition enriching_vertex :: vertex where
  "enriching_vertex =
     \<lparr>vertex_setup = (\<lambda>img. None),
      generative_model = None,
      generate_content = (\<lambda>img prompt attempt. Text enriched_text)\<rparr>"

definition page_lib :: pylib where
  "page_lib =
     \<lparr>loads = (\<lambda>s. if s = enriched_text
                   then Some (PDict [(PStr ''0'', PDict enriched_0), (PStr ''1'', PDict enriched_1)])
                   else None),
      dumps = (\<lambda>v. []),
      repr = (\<lambda>v. [])\<rparr>"


section \<open>Verification\<close>

subsection \<open>Block extraction\<close>

lemma first_seen_snoc:
  "first_seen (xs @ [x]) = (if x \<in> set xs then first_seen xs else first_seen xs @ [x])"
  by (simp add: first_seen_def)

lemma set_first_seen [simp]: "set (first_seen xs) = set xs"
  by (simp add: first_seen_def)

lemma annotate_words_snoc:
  "annotate_words pal (ws @ [w]) st =
     (case annotate_words pal ws st of Inl e \<Rightarrow> Inl e | Inr st' \<Rightarrow> annotate_word pal w st')"
  by (induction ws arbitrary: st) (auto split: sum.splits)

lemma block_of_other:
  "word_block w \<noteq> k \<Longrightarrow> block_of k (ws @ [w]) = block_of k ws"
  by (simp add: block_of_def)

lemma block_of_same:
  "block_of (word_block w) (ws @ [w]) =
     append_word (word_text w) (word_rect w) (block_of (word_block w) ws)"
  by (simp add: block_of_def append_word_def)

lemma block_of_fresh:
  "k \<notin> word_block ` set ws \<Longrightarrow> block_of k ws = empty_block"
proof -
  assume "k \<notin> word_block ` set ws"
  then have "filter (\<lambda>w. word_block w = k) ws = []"
    by (auto simp: filter_empty_conv)
  then show ?thesis by (simp add: block_of_def empty_block_def)
qed

lemma annotate_word_step:
  assumes "pal (word_block w) = Some color" and "ordered_rect w"
  shows "\<exists>img'. annotate_word pal w (img, map (\<lambda>k. (k, block_of k ws)) (first_seen (map word_block ws)))
     = Inr (img', map (\<lambda>k. (k, block_of k (ws @ [w]))) (first_seen (map word_block (ws @ [w]))))"
proof -
  obtain x0 y0 x1 y1 t b l n where w: "w = (x0, y0, x1, y1, t, b, l, n)"
    by (cases w) auto
  have wb: "word_block w = b" and wt: "word_text w = t" and wr: "word_rect w = ((x0, y0), (x1, y1))"
    by (simp_all add: w word_block_def word_text_def word_rect_def)
  define K where "K = first_seen (map word_block ws)"
  define K' where "K' = first_seen (map word_block (ws @ [w]))"
  define D where "D = map (\<lambda>k. (k, block_of k ws)) K"
  define D1 where "D1 = (if b \<notin> set (map fst D) then D @ [(b, empty_block)] else D)"
  define D2 where "D2 = map (\<lambda>(k, bl). if k = b then (k, append_word t ((x0, y0), (x1, y1)) bl)
                                       else (k, bl)) D1"
  have keysD: "set (map fst D) = word_block ` set ws"
    by (simp add: D_def K_def comp_def)
  have d1: "D1 = map (\<lambda>k. (k, block_of k ws)) K'"
  proof (cases "b \<in> word_block ` set ws")
    case True
    then show ?thesis
      unfolding D1_def keysD by (simp add: D_def K_def K'_def first_seen_snoc wb)
  next
    case False
    then show ?thesis using block_of_fresh[OF False]
      unfolding D1_def keysD by (simp add: D_def K_def K'_def first_seen_snoc wb)
  qed
  have d2: "D2 = map (\<lambda>k. (k, block_of k (ws @ [w]))) K'"
    unfolding D2_def d1
    using block_of_same[of w ws] block_of_other[of w _ ws]
    by (auto simp: wb wt wr)
  have "\<exists>img'. annotate_word pal w (img, D) = Inr (img', D2)"
    using assms unfolding annotate_word_def w D2_def D1_def
    by (simp add: Let_def word_block_def ordered_rect_def draw_rectangle_def)
  then show ?thesis
    unfolding d2 unfolding D_def K_def K'_def .
qed

lemma annotate_words_blocks:
  assumes "\<forall>w \<in> set ws. pal (word_block w) \<noteq> None \<and> ordered_rect w"
  shows "\<exists>img'. annotate_words pal ws (img, []) =
           Inr (img', map (\<lambda>k. (k, block_of k ws)) (first_seen (map word_block ws)))"
  using assms
proof (induction ws rule: rev_induct)
  case Nil
  then show ?case by (simp add: first_seen_def)
next
  case (snoc w ws)
  then obtain img1 where 1: "annotate_words pal ws (img, []) =
           Inr (img1, map (\<lambda>k. (k, block_of k ws)) (first_seen (map word_block ws)))"
    by auto
  from snoc.prems obtain color where "pal (word_block w) = Some color" by auto
  moreover from snoc.prems have "ordered_rect w" by simp
  ultimately have "\<exists>img'. annotate_word pal w
      (img1, map (\<lambda>k. (k, block_of k ws)) (first_seen (map word_block ws)))
     = Inr (img', map (\<lambda>k. (k, block_of k (ws @ [w]))) (first_seen (map word_block (ws @ [w]))))"
    by (rule annotate_word_step)
  with 1
  show ?case by (simp add: annotate_words_snoc)
qed

lemma concat_trailing_space:
  "ws \<noteq> [] \<Longrightarrow> concat (map (\<lambda>w. w @ '' '') ws) = join_spaces ws @ '' ''"
proof (induction ws)
  case Nil
  then show ?case by simp
next
  case (Cons w ws)
  show ?case
  proof (cases ws)
    case Nil
    then show ?thesis by (simp add: join_spaces_def)
  next
    case (Cons v vs)
    with Cons.IH show ?thesis by (simp add: join_spaces_def)
  qed
qed

lemma py_strip_trailing_space:
  assumes "s \<noteq> []" "\<not> py_isspace (hd s)" "\<not> py_isspace (last s)"
  shows "py_strip (s @ '' '') = s"
proof -
  have 1: "dropWhile py_isspace (s @ '' '') = s @ '' ''"
    using assms(1,2) by (cases s) auto
  have 2: "dropWhile py_isspace (rev s) = rev s"
    using assms(1,3) by (cases s rule: rev_cases) auto
  have "py_isspace (CHR '' '')" by (simp add: py_isspace_def)
  then show ?thesis
    by (simp add: py_strip_def 1 2)
qed

lemma join_spaces_ends:
  assumes "ws \<noteq> []" "\<forall>w \<in> set ws. w \<noteq> [] \<and> (\<forall>c \<in> set w. \<not> py_isspace c)"
  shows "join_spaces ws \<noteq> [] \<and> \<not> py_isspace (hd (join_spaces ws)) \<and> \<not> py_isspace (last (join_spaces ws))"
proof -
  obtain w rest where ws: "ws = w # rest" using assms(1) by (cases ws) auto
  have w: "w \<noteq> []" "\<forall>c \<in> set w. \<not> py_isspace c" using assms(2) ws by auto
  have ne: "join_spaces ws \<noteq> []" using w by (simp add: ws join_spaces_def)
  have h: "hd (join_spaces ws) = hd w" using w by (simp add: ws join_spaces_def)
  have "last (join_spaces ws) \<in> set (last ws)"
  proof (cases rest rule: rev_cases)
    case Nil
    then show ?thesis using w by (simp add: ws join_spaces_def)
  next
    case (snoc ys y)
    have "y \<noteq> []" using assms(2) ws snoc by auto
    then show ?thesis by (simp add: ws snoc join_spaces_def)
  qed
  moreover have "last ws \<in> set ws" using assms(1) by simp
  ultimately have "\<not> py_isspace (last (join_spaces ws))" using assms(2) by blast
  moreover have "\<not> py_isspace (hd w)" using w by (cases w) auto
  ultimately show ?thesis using ne h by simp
qed

lemma strip_concat_join:
  assumes "ws \<noteq> []" "\<forall>w \<in> set ws. w \<noteq> [] \<and> (\<forall>c \<in> set w. \<not> py_isspace c)"
  shows "py_strip (concat (map (\<lambda>w. w @ '' '') ws)) = join_spaces ws"
  using join_spaces_ends[OF assms] py_strip_trailing_space concat_trailing_space[OF assms(1)]
  by simp

lemma palette_covers:
  "\<forall>w \<in> set ws. generate_color_palette draws (map word_block ws) (word_block w) \<noteq> None"
  by (simp add: generate_color_palette_def)

lemma extract_blocks_eq:
  assumes "\<forall>w \<in> set ws. ordered_rect w"
  shows "\<exists>img. extract_blocks draws ws =
     Inr (img, map (\<lambda>k. (k, (block_of k ws)\<lparr>btext := py_strip (btext (block_of k ws))\<rparr>))
                 (first_seen (map word_block ws)))"
proof -
  have "\<exists>img. annotate_words (generate_color_palette draws (map word_block ws)) ws ([], [])
     = Inr (img, map (\<lambda>k. (k, block_of k ws)) (first_seen (map word_block ws)))"
    by (rule annotate_words_blocks) (use assms palette_covers in blast)
  then obtain img where "annotate_words (generate_color_palette draws (map word_block ws)) ws ([], [])
     = Inr (img, map (\<lambda>k. (k, block_of k ws)) (first_seen (map word_block ws)))"
    by blast
  then show ?thesis
    by (simp add: extract_blocks_def annotate_image_with_words_def comp_def)
qed

lemma annotate_words_rejects:
  assumes "annotate_words pal ws st = Inr st'"
  shows "\<forall>w \<in> set ws. ordered_rect w"
  using assms
proof (induction ws arbitrary: st)
  case Nil
  then show ?case by simp
next
  case (Cons w ws)
  from Cons.prems obtain st1 where 1: "annotate_word pal w st = Inr st1"
    and 2: "annotate_words pal ws st1 = Inr st'"
    by (auto split: sum.splits)
  from 1 have "ordered_rect w"
    by (auto simp: annotate_word_def ordered_rect_def draw_rectangle_def Let_def
             split: prod.splits option.splits if_splits sum.splits)
  with Cons.IH[OF 2] show ?case by simp
qed

lemma extract_blocks_rejects:
  assumes "\<not> (\<forall>w \<in> set ws. ordered_rect w)"
  shows "\<exists>e. extract_blocks draws ws = Inl e"
proof (cases "annotate_words (generate_color_palette draws (map word_block ws)) ws ([], [])")
  case (Inl e)
  then show ?thesis
    by (simp add: extract_blocks_def annotate_image_with_words_def)
next
  case (Inr st')
  from annotate_words_rejects[OF this] assms show ?thesis by blast
qed

lemma extract_blocks_reversed_word:
  "extract_blocks draws [reversed_word] =
     Inl (Exn ValueError ''x1 must be greater than or equal to x0'')"
  by (simp add: extract_blocks_def annotate_image_with_words_def annotate_word_def
                generate_color_palette_def word_block_def reversed_word_def draw_rectangle_def)

text \<open>
  Claim C2.  For every word sequence whose rectangles have their corners in order, as the
  renderer delivers them, the extraction returns blocks whose ids are the block numbers of
  the words in first-seen order.  Every block holds the texts and the rectangles of
  exactly its own words, in input order, so both sequences have the same length; its text
  is the concatenation of each word followed by one space, stripped.  When the words are
  non-empty and free of white space, that text is the words joined by single spaces.  No
  words give no blocks.  A word sequence with a rectangle out of order produces no block
  at all: the drawing of that rectangle raises before the word is recorded.
\<close>

theorem extract_blocks_groups_words:
  "((\<forall>w \<in> set ws. ordered_rect w) \<longrightarrow>
     (\<exists>img blocks. extract_blocks draws ws = Inr (img, blocks)
       \<and> map fst blocks = rev (remdups (rev (map word_block ws)))
       \<and> (\<forall>(k, b) \<in> set blocks.
            words b = map word_text (filter (\<lambda>w. word_block w = k) ws)
          \<and> bounding_boxes b = map word_rect (filter (\<lambda>w. word_block w = k) ws)
          \<and> length (words b) = length (bounding_boxes b)
          \<and> btext b = py_strip (concat (map (\<lambda>w. w @ '' '') (words b)))
          \<and> ((\<forall>w \<in> set (words b). w \<noteq> [] \<and> (\<forall>c \<in> set w. \<not> py_isspace c))
               \<longrightarrow> btext b = join_spaces (words b)))
       \<and> (ws = [] \<longrightarrow> blocks = [])))
   \<and> (\<not> (\<forall>w \<in> set ws. ordered_rect w) \<longrightarrow> (\<exists>e. extract_blocks draws ws = Inl e))"
proof (intro conjI impI)
  show "\<exists>e. extract_blocks draws ws = Inl e" if "\<not> (\<forall>w \<in> set ws. ordered_rect w)"
    using that by (rule extract_blocks_rejects)
next
  assume ordered: "\<forall>w \<in> set ws. ordered_rect w"
  show "\<exists>img blocks. extract_blocks draws ws = Inr (img, blocks)
       \<and> map fst blocks = rev (remdups (rev (map word_block ws)))
       \<and> (\<forall>(k, b) \<in> set blocks.
            words b = map word_text (filter (\<lambda>w. word_block w = k) ws)
          \<and> bounding_boxes b = map word_rect (filter (\<lambda>w. word_block w = k) ws)
          \<and> length (words b) = length (bounding_boxes b)
          \<and> btext b = py_strip (concat (map (\<lambda>w. w @ '' '') (words b)))
          \<and> ((\<forall>w \<in> set (words b). w \<noteq> [] \<and> (\<forall>c \<in> set w. \<not> py_isspace c))
               \<longrightarrow> btext b = join_spaces (words b)))
       \<and> (ws = [] \<longrightarrow> blocks = [])"
proof -
  define blocks where "blocks =
    map (\<lambda>k. (k, (block_of k ws)\<lparr>btext := py_strip (btext (block_of k ws))\<rparr>))
      (first_seen (map word_block ws))"
  obtain img where run: "extract_blocks draws ws = Inr (img, blocks)"
    using extract_blocks_eq[OF ordered, of draws] unfolding blocks_def by blast
  have keys: "map fst blocks = rev (remdups (rev (map word_block ws)))"
    by (simp add: blocks_def comp_def first_seen_def)
  have each: "words b = map word_text (filter (\<lambda>w. word_block w = k) ws)
        \<and> bounding_boxes b = map word_rect (filter (\<lambda>w. word_block w = k) ws)
        \<and> length (words b) = length (bounding_boxes b)
        \<and> btext b = py_strip (concat (map (\<lambda>w. w @ '' '') (words b)))
        \<and> ((\<forall>w \<in> set (words b). w \<noteq> [] \<and> (\<forall>c \<in> set w. \<not> py_isspace c))
             \<longrightarrow> btext b = join_spaces (words b))"
    if kb: "(k, b) \<in> set blocks" for k b
  proof -
    from kb have k: "k \<in> word_block ` set ws"
      and b: "b = (block_of k ws)\<lparr>btext := py_strip (btext (block_of k ws))\<rparr>"
      by (auto simp: blocks_def)
    have w: "words b = map word_text (filter (\<lambda>w. word_block w = k) ws)"
      and r: "bounding_boxes b = map word_rect (filter (\<lambda>w. word_block w = k) ws)"
      and t: "btext b = py_strip (concat (map (\<lambda>w. w @ '' '') (words b)))"
      by (simp_all add: b block_of_def comp_def)
    from k have ne: "words b \<noteq> []"
      by (auto simp: w filter_empty_conv)
    show ?thesis
      using w r t strip_concat_join[OF ne] by simp
  qed
  have empty: "ws = [] \<longrightarrow> blocks = []"
    by (simp add: blocks_def first_seen_def)
  from run keys each empty show ?thesis by blast
  qed
qed

text \<open>
  The property at \<open>demo_words\<close>: blocks 0 and 1 in that order, with texts
  \<open>Once upon a\<close> and \<open>Hi\<close>; and at the reversed word, which gives no block.
\<close>

theorem extract_blocks_groups_words_witness:
  "(\<exists>img blocks. extract_blocks (\<lambda>_. (0, 0, 0)) demo_words = Inr (img, blocks)
     \<and> map fst blocks = [0, 1]
     \<and> (\<forall>(k, b) \<in> set blocks.
          (\<forall>w \<in> set (words b). w \<noteq> [] \<and> (\<forall>c \<in> set w. \<not> py_isspace c))
        \<and> length (words b) = length (bounding_boxes b)
        \<and> btext b = (if k = 0 then ''Once upon a'' else ''Hi'')))
   \<and> (\<exists>e. extract_blocks (\<lambda>_. (0, 0, 0)) [reversed_word] = Inl e)"
proof -
  have ord: "\<forall>w \<in> set demo_words. ordered_rect w"
    by (simp add: demo_words_def ordered_rect_def)
  have rev: "\<not> (\<forall>w \<in> set [reversed_word]. ordered_rect w)"
    by (simp add: reversed_word_def ordered_rect_def)
  have fails: "\<exists>e. extract_blocks (\<lambda>_. (0, 0, 0)) [reversed_word] = Inl e"
    using extract_blocks_groups_words[where ws = "[reversed_word]" and draws = "\<lambda>_. (0, 0, 0)",
            THEN conjunct2, THEN mp, OF rev] .
  from extract_blocks_groups_words[where ws = demo_words and draws = "\<lambda>_. (0, 0, 0)",
         THEN conjunct1, THEN mp, OF ord]
  obtain img blocks where run: "extract_blocks (\<lambda>_. (0, 0, 0)) demo_words = Inr (img, blocks)"
    and keys: "map fst blocks = rev (remdups (rev (map word_block demo_words)))"
    and each: "\<And>k b. (k, b) \<in> set blocks \<Longrightarrow>
          words b = map word_text (filter (\<lambda>w. word_block w = k) demo_words)
        \<and> length (words b) = length (bounding_boxes b)
        \<and> ((\<forall>w \<in> set (words b). w \<noteq> [] \<and> (\<forall>c \<in> set w. \<not> py_isspace c))
             \<longrightarrow> btext b = join_spaces (words b))"
    by blast
  have k01: "map fst blocks = [0, 1]"
    using keys by (simp add: demo_words_def word_block_def)
  have all: "\<forall>kb \<in> set blocks. case kb of (k, b) \<Rightarrow>
          (\<forall>w \<in> set (words b). w \<noteq> [] \<and> (\<forall>c \<in> set w. \<not> py_isspace c))
        \<and> length (words b) = length (bounding_boxes b)
        \<and> btext b = (if k = 0 then ''Once upon a'' else ''Hi'')"
  proof
    fix kb assume mem: "kb \<in> set blocks"
    obtain k b where kb: "kb = (k, b)" by (cases kb)
    from mem kb have "k \<in> set (map fst blocks)" by force
    then have k: "k = 0 \<or> k = 1" by (simp add: k01)
    from each[of k b] mem kb
    have w: "words b = map word_text (filter (\<lambda>w. word_block w = k) demo_words)"
      and l: "length (words b) = length (bounding_boxes b)"
      and j: "(\<forall>w \<in> set (words b). w \<noteq> [] \<and> (\<forall>c \<in> set w. \<not> py_isspace c))
             \<longrightarrow> btext b = join_spaces (words b)"
      by blast+
    from k have ws: "words b = (if k = 0 then [''Once'', ''upon'', ''a''] else [''Hi''])"
      by (auto simp: w demo_words_def word_block_def word_text_def)
    then have h: "\<forall>w \<in> set (words b). w \<noteq> [] \<and> (\<forall>c \<in> set w. \<not> py_isspace c)"
      by (simp add: py_isspace_def)
    with j have "btext b = join_spaces (words b)" by (rule_tac mp)
    then have "btext b = (if k = 0 then ''Once upon a'' else ''Hi'')"
      by (simp add: ws join_spaces_def)
    with h l show "case kb of (k, b) \<Rightarrow>
          (\<forall>w \<in> set (words b). w \<noteq> [] \<and> (\<forall>c \<in> set w. \<not> py_isspace c))
        \<and> length (words b) = length (bounding_boxes b)
        \<and> btext b = (if k = 0 then ''Once upon a'' else ''Hi'')"
      unfolding kb prod.case by (intro conjI)
  qed
  have "\<exists>img blocks. extract_blocks (\<lambda>_. (0, 0, 0)) demo_words = Inr (img, blocks)
     \<and> map fst blocks = [0, 1]
     \<and> (\<forall>(k, b) \<in> set blocks.
          (\<forall>w \<in> set (words b). w \<noteq> [] \<and> (\<forall>c \<in> set w. \<not> py_isspace c))
        \<and> length (words b) = length (bounding_boxes b)
        \<and> btext b = (if k = 0 then ''Once upon a'' else ''Hi''))"
    by (rule exI[of _ img], rule exI[of _ blocks]) (intro conjI run k01 all)
  with fails show ?thesis by (intro conjI)
qed

subsection \<open>Extracting the JSON candidate\<close>

lemma py_find_ge: "- 1 \<le> py_find c s"
  by (induction s) (auto simp: Let_def)

lemma py_find_absent: "c \<notin> set s \<Longrightarrow> py_find c s = - 1"
  by (induction s) (auto simp: Let_def)

lemma py_find_first:
  "c \<notin> set pre \<Longrightarrow> py_find c (pre @ c # rest) = int (length pre)"
  by (induction pre) (auto simp: Let_def)

lemma py_find_present:
  "py_find c s \<noteq> - 1 \<Longrightarrow>
     \<exists>pre rest. s = pre @ c # rest \<and> c \<notin> set pre \<and> py_find c s = int (length pre)"
proof (induction s)
  case Nil
  then show ?case by simp
next
  case (Cons x xs)
  show ?case
  proof (cases "x = c")
    case True
    then have "x # xs = [] @ c # xs \<and> c \<notin> set [] \<and> py_find c (x # xs) = int (length ([]::string))"
      by simp
    then show ?thesis by blast
  next
    case False
    with Cons.prems have "py_find c xs \<noteq> - 1" by (auto simp: Let_def split: if_splits)
    from Cons.IH[OF this] obtain pre rest where
      "xs = pre @ c # rest" "c \<notin> set pre" "py_find c xs = int (length pre)" by blast
    with False have "x # xs = (x # pre) @ c # rest \<and> c \<notin> set (x # pre)
        \<and> py_find c (x # xs) = int (length (x # pre))"
      by (auto simp: Let_def)
    then show ?thesis by blast
  qed
qed

lemma py_rfind_last:
  "c \<notin> set post \<Longrightarrow> py_rfind c (pre @ c # post) = int (length pre)"
proof -
  assume "c \<notin> set post"
  then have "py_find c (rev post @ c # rev pre) = int (length (rev post))"
    by (intro py_find_first) simp
  then show ?thesis
    using py_find_ge[of c "rev post @ c # rev pre"]
    by (simp add: py_rfind_def Let_def)
qed

lemma py_rfind_present:
  assumes "py_rfind c s \<noteq> - 1"
  shows "\<exists>pre post. s = pre @ c # post \<and> c \<notin> set post \<and> py_rfind c s = int (length pre)"
proof -
  from assms have "py_find c (rev s) \<noteq> - 1"
    by (auto simp: py_rfind_def Let_def split: if_splits)
  from py_find_present[OF this] obtain p r where
    rs: "rev s = p @ c # r" and np: "c \<notin> set p" by blast
  from rs have "s = rev r @ c # rev p" by (metis rev_append rev.simps(2) rev_rev_ident append_Cons append_Nil append_assoc)
  moreover from np have "c \<notin> set (rev p)" by simp
  ultimately have "s = rev r @ c # rev p \<and> c \<notin> set (rev p) \<and> py_rfind c s = int (length (rev r))"
    using py_rfind_last[of c "rev p" "rev r"] by simp
  then show ?thesis by blast
qed

lemma slice_braces:
  assumes "text = pre @ [CHR ''{''] @ mid @ [CHR ''}''] @ post"
    and "CHR ''{'' \<notin> set pre" and "CHR ''}'' \<notin> set post"
  shows "py_find (CHR ''{'') text = int (length pre)"
    and "py_rfind (CHR ''}'') text = int (length pre + 1 + length mid)"
    and "py_slice text (int (length pre)) (int (length pre + 1 + length mid) + 1)
           = [CHR ''{''] @ mid @ [CHR ''}'']"
proof -
  show "py_find (CHR ''{'') text = int (length pre)"
    using py_find_first[OF assms(2), of "mid @ [CHR ''}''] @ post"] assms(1) by simp
  have "text = (pre @ [CHR ''{''] @ mid) @ CHR ''}'' # post" using assms(1) by simp
  then show "py_rfind (CHR ''}'') text = int (length pre + 1 + length mid)"
    using py_rfind_last[OF assms(3), of "pre @ [CHR ''{''] @ mid"] by simp
  show "py_slice text (int (length pre)) (int (length pre + 1 + length mid) + 1)
           = [CHR ''{''] @ mid @ [CHR ''}'']"
  proof -
    have n: "nat (int (length pre + 1 + length mid) + 1 - int (length pre)) = Suc (Suc (length mid))"
      by simp
    show ?thesis
      unfolding py_slice_def n by (simp add: assms(1))
  qed
qed

lemma clean_with_braces:
  assumes "strip_markdown_fence raw = pre @ [CHR ''{''] @ mid @ [CHR ''}''] @ post"
    and "CHR ''{'' \<notin> set pre" and "CHR ''}'' \<notin> set post"
  shows "clean_llm_response_to_json_string raw = [CHR ''{''] @ mid @ [CHR ''}'']"
  using slice_braces[OF assms]
  by (simp add: clean_llm_response_to_json_string_def Let_def)

lemma braces_in_order:
  assumes f: "py_find (CHR ''{'') text \<noteq> - 1" and l: "py_rfind (CHR ''}'') text \<noteq> - 1"
    and lt: "py_rfind (CHR ''}'') text > py_find (CHR ''{'') text"
  shows "\<exists>pre mid post. text = pre @ [CHR ''{''] @ mid @ [CHR ''}''] @ post"
proof -
  from py_find_present[OF f] obtain pre rest where
    1: "text = pre @ CHR ''{'' # rest" and 2: "py_find (CHR ''{'') text = int (length pre)" by blast
  from py_rfind_present[OF l] obtain pre' post where
    3: "text = pre' @ CHR ''}'' # post" and 4: "py_rfind (CHR ''}'') text = int (length pre')" by blast
  from lt 2 4 have len: "length pre < length pre'" by simp
  from 1 3 have eq: "pre @ CHR ''{'' # rest = pre' @ CHR ''}'' # post" by simp
  from eq obtain us where
    us: "(pre = pre' @ us \<and> us @ CHR ''{'' # rest = CHR ''}'' # post)
       \<or> (pre @ us = pre' \<and> CHR ''{'' # rest = us @ CHR ''}'' # post)"
    unfolding append_eq_append_conv2 by blast
  from us len have u2: "pre @ us = pre'" "CHR ''{'' # rest = us @ CHR ''}'' # post"
    by auto
  from u2(1) len have "us \<noteq> []" by auto
  with u2(2) obtain mid where "us = CHR ''{'' # mid"
    by (cases us) auto
  with u2(1) have "pre' = pre @ CHR ''{'' # mid" by simp
  with 3 have "text = pre @ [CHR ''{''] @ mid @ [CHR ''}''] @ post" by simp
  then show ?thesis by blast
qed

lemma clean_without_braces:
  assumes "\<not> (\<exists>pre mid post. strip_markdown_fence raw = pre @ [CHR ''{''] @ mid @ [CHR ''}''] @ post)"
  shows "clean_llm_response_to_json_string raw = strip_markdown_fence raw"
  using assms braces_in_order[of "strip_markdown_fence raw"]
  by (auto simp: clean_llm_response_to_json_string_def Let_def)

lemma strip_fence_closed:
  assumes "py_strip raw = json_fence @ body @ backticks"
  shows "strip_markdown_fence raw = py_strip body"
proof -
  have l: "length json_fence = 7" "length backticks = 3"
    by (simp_all add: json_fence_def backticks_def)
  have 1: "startswith (py_strip raw) json_fence"
    by (simp add: assms startswith_def)
  have 2: "drop 7 (py_strip raw) = body @ backticks"
    using l by (simp add: assms)
  have 3: "endswith (body @ backticks) backticks"
    using l by (simp add: endswith_def)
  have 4: "take (length (body @ backticks) - 3) (body @ backticks) = body"
    using l by simp
  show ?thesis
    unfolding strip_markdown_fence_def Let_def using 1 3 by (simp only: 2 4 if_True)
qed

lemma strip_fence_open:
  assumes "py_strip raw = json_fence @ body" and "\<not> endswith body backticks"
  shows "strip_markdown_fence raw = py_strip body"
proof -
  have l: "length json_fence = 7" by (simp add: json_fence_def)
  have 1: "startswith (py_strip raw) json_fence"
    by (simp add: assms(1) startswith_def)
  have 2: "drop 7 (py_strip raw) = body"
    using l by (simp add: assms(1))
  show ?thesis
    unfolding strip_markdown_fence_def Let_def using 1 assms(2) by (simp only: 2 if_True if_False)
qed

lemma strip_fence_absent:
  "\<not> startswith (py_strip raw) json_fence \<Longrightarrow> strip_markdown_fence raw = py_strip raw"
  by (simp add: strip_markdown_fence_def Let_def)

text \<open>
  Claim C6, as the code has it.  A response is stripped; when it then starts with the
  markdown fence, the fence, a closing fence and the white space around the rest are
  removed.  When the remaining text contains an opening brace and, after it, a closing
  brace, the result is the substring from the first opening brace to the last closing
  brace, both included.  When it does not, the remaining text is returned as it is.
\<close>

theorem clean_llm_response_slices_braces:
  "(py_strip raw = json_fence @ body @ backticks \<longrightarrow> strip_markdown_fence raw = py_strip body)
   \<and> (py_strip raw = json_fence @ body \<and> \<not> endswith body backticks
        \<longrightarrow> strip_markdown_fence raw = py_strip body)
   \<and> (\<not> startswith (py_strip raw) json_fence \<longrightarrow> strip_markdown_fence raw = py_strip raw)
   \<and> (strip_markdown_fence raw = pre @ [CHR ''{''] @ mid @ [CHR ''}''] @ post
        \<and> CHR ''{'' \<notin> set pre \<and> CHR ''}'' \<notin> set post
        \<longrightarrow> clean_llm_response_to_json_string raw = [CHR ''{''] @ mid @ [CHR ''}''])
   \<and> ((\<nexists>p m q. strip_markdown_fence raw = p @ [CHR ''{''] @ m @ [CHR ''}''] @ q)
        \<longrightarrow> clean_llm_response_to_json_string raw = strip_markdown_fence raw)"
  using strip_fence_closed[of raw body] strip_fence_open[of raw body] strip_fence_absent[of raw]
    clean_with_braces[of raw pre mid post] clean_without_braces[of raw]
  by blast

text \<open>
  The property at the two responses of the specification: the fenced object and the
  object inside prose both come out as the bare object text, which is the JSON text of
  the object with the single member \<open>a\<close> of value 1.
\<close>

theorem clean_llm_response_slices_braces_witness:
  \<open>clean_llm_response_to_json_string fenced_response = ''{"a":1}''
   \<and> clean_llm_response_to_json_string prose_response = ''{"a":1}''\<close>
proof -
  have f1: \<open>py_strip fenced_response = json_fence @ ([CHR 0x0A] @ ''{"a":1}'' @ [CHR 0x0A]) @ backticks\<close>
    by (simp add: fenced_response_def json_fence_def backticks_def py_strip_def py_isspace_def)
  have f2: \<open>py_strip ([CHR 0x0A] @ ''{"a":1}'' @ [CHR 0x0A]) = [] @ [CHR ''{''] @ ''"a":1'' @ [CHR ''}''] @ []\<close>
    by (simp add: py_strip_def py_isspace_def)
  from clean_llm_response_slices_braces[of fenced_response \<open>[CHR 0x0A] @ ''{"a":1}'' @ [CHR 0x0A]\<close>] f1
  have \<open>strip_markdown_fence fenced_response = py_strip ([CHR 0x0A] @ ''{"a":1}'' @ [CHR 0x0A])\<close>
    by blast
  with f2 have f3: \<open>strip_markdown_fence fenced_response = [] @ [CHR ''{''] @ ''"a":1'' @ [CHR ''}''] @ []\<close>
    by simp
  from clean_llm_response_slices_braces[of fenced_response _ "[]" \<open>''"a":1''\<close> "[]"] f3
  have a: \<open>clean_llm_response_to_json_string fenced_response = [CHR ''{''] @ ''"a":1'' @ [CHR ''}'']\<close>
    by simp
  have p1: "\<not> startswith (py_strip prose_response) json_fence"
    by (simp add: prose_response_def json_fence_def py_strip_def py_isspace_def startswith_def)
  have p2: \<open>py_strip prose_response = ''Here is the JSON: '' @ [CHR ''{''] @ ''"a":1'' @ [CHR ''}''] @ '' Hope this helps!''\<close>
    by (simp add: prose_response_def py_strip_def py_isspace_def)
  from clean_llm_response_slices_braces[of prose_response] p1
  have "strip_markdown_fence prose_response = py_strip prose_response" by blast
  with p2 have p3: \<open>strip_markdown_fence prose_response
      = ''Here is the JSON: '' @ [CHR ''{''] @ ''"a":1'' @ [CHR ''}''] @ '' Hope this helps!''\<close>
    by simp
  from clean_llm_response_slices_braces[of prose_response _ \<open>''Here is the JSON: ''\<close> \<open>''"a":1''\<close>
      \<open>'' Hope this helps!''\<close>] p3
  have b: \<open>clean_llm_response_to_json_string prose_response = [CHR ''{''] @ ''"a":1'' @ [CHR ''}'']\<close>
    by simp
  from a b show ?thesis by simp
qed

text \<open>
  A response without any brace is returned whole: the result is not a substring that
  starts at an opening brace.
\<close>

theorem clean_llm_response_no_braces_counterexample:
  "clean_llm_response_to_json_string ''no json here'' = ''no json here''
   \<and> hd (clean_llm_response_to_json_string ''no json here'') \<noteq> CHR ''{''"
  by (simp add: clean_llm_response_to_json_string_def strip_markdown_fence_def json_fence_def
      py_strip_def py_isspace_def startswith_def Let_def py_rfind_def)

subsection \<open>Retries of one chunk\<close>

lemma upt3: "[0 ..< MAX_RETRIES] = [0, 1, 2]"
  by (simp add: MAX_RETRIES_def upt_rec)

lemma attempt_fail_step:
  assumes "attempt_fails lib (provider a)"
  shows "attempt_loop lib provider (a # rest) tr =
     (if a < MAX_RETRIES - 1 then attempt_loop lib provider rest (tr @ [Call a, Sleep RETRY_DELAY_SECONDS])
      else if provider a = Empty_response
              \<or> (\<exists>raw. provider a = Text raw \<and> clean_llm_response_to_json_string raw = [])
      then attempt_loop lib provider rest (tr @ [Call a, Sleep RETRY_DELAY_SECONDS])
      else (PNone, tr @ [Call a]))"
  using assms
  by (cases "provider a") (auto simp: attempt_fails_def Let_def split: option.splits)

lemma attempt_yield_step:
  assumes "attempt_yields lib (provider a) v"
  shows "attempt_loop lib provider (a # rest) tr = (v, tr @ [Call a])"
  using assms
  by (cases "provider a") (auto simp: attempt_yields_def Let_def)

lemma retry_third_succeeds:
  assumes "attempt_fails lib (provider 0)" "attempt_fails lib (provider 1)"
    "attempt_yields lib (provider 2) v"
  shows "attempt_loop lib provider [0 ..< MAX_RETRIES] [] =
           (v, [Call 0, Sleep 2, Call 1, Sleep 2, Call 2])"
  unfolding upt3
  by (simp add: attempt_fail_step[where provider = provider and a = 0, OF assms(1)]
      attempt_fail_step[where provider = provider and a = "Suc 0", OF assms(2)[unfolded One_nat_def]]
      attempt_yield_step[where provider = provider and a = 2, OF assms(3)]
      MAX_RETRIES_def RETRY_DELAY_SECONDS_def del: attempt_loop.simps(2))

lemma retry_all_fail:
  assumes "attempt_fails lib (provider 0)" "attempt_fails lib (provider 1)"
    "attempt_fails lib (provider 2)"
  shows "fst (attempt_loop lib provider [0 ..< MAX_RETRIES] []) = PNone
     \<and> (snd (attempt_loop lib provider [0 ..< MAX_RETRIES] []) = [Call 0, Sleep 2, Call 1, Sleep 2, Call 2]
        \<or> snd (attempt_loop lib provider [0 ..< MAX_RETRIES] [])
             = [Call 0, Sleep 2, Call 1, Sleep 2, Call 2, Sleep 2])"
  unfolding upt3
  by (simp add: attempt_fail_step[where provider = provider and a = 0, OF assms(1)]
      attempt_fail_step[where provider = provider and a = "Suc 0", OF assms(2)[unfolded One_nat_def]]
      attempt_fail_step[where provider = provider and a = 2, OF assms(3)]
      MAX_RETRIES_def RETRY_DELAY_SECONDS_def del: attempt_loop.simps(2))

lemma attempt_loop_calls:
  "length (filter is_call (snd (attempt_loop lib provider as tr)))
     \<le> length (filter is_call tr) + length as"
proof (induction as arbitrary: tr)
  case Nil
  then show ?case by simp
next
  case (Cons a as)
  have c: "length (filter is_call (tr @ [Call a, Sleep RETRY_DELAY_SECONDS])) = length (filter is_call tr) + 1"
    "length (filter is_call (tr @ [Call a])) = length (filter is_call tr) + 1"
    by (simp_all add: is_call_def)
  have ih: "length (filter is_call (snd (attempt_loop lib provider as (tr @ [Call a, Sleep RETRY_DELAY_SECONDS]))))
     \<le> length (filter is_call tr) + 1 + length as"
    using Cons.IH[of "tr @ [Call a, Sleep RETRY_DELAY_SECONDS]"] c by simp
  show ?case
    using ih c
    by (cases "provider a") (auto simp: Let_def split: option.splits)
qed

lemma generate_block_json_loop:
  assumes "vertex_setup vx img = None" and "generative_model vx = None"
  shows "generate_block_json lib vx img arg =
      (Inr (fst (attempt_loop lib (generate_content vx img (py_str lib arg)) [0 ..< MAX_RETRIES] [])),
       snd (attempt_loop lib (generate_content vx img (py_str lib arg)) [0 ..< MAX_RETRIES] []))"
  using assms by (simp add: generate_block_json_def Let_def split: prod.splits)

lemma generate_block_json_unconfigured:
  assumes "vertex_setup vx img = None" and "generative_model vx = Some e"
  shows "generate_block_json lib vx img arg = (Inl e, [])"
  using assms by (simp add: generate_block_json_def)

lemma generate_block_json_fallback:
  assumes "vertex_setup vx img = Some e"
  shows "generate_block_json lib vx img arg = (Inr (create_fallback_block_json lib arg), [])"
  using assms by (simp add: generate_block_json_def)

lemma unconfigured_raises:
  "generate_block_json lib unconfigured_vertex img arg
     = (Inl (Exn RuntimeError ''provider not configured''), [])"
  by (rule generate_block_json_unconfigured) (simp_all add: unconfigured_vertex_def)

text \<open>
  Claim C4.  When the setup succeeds and the model is constructed, \<open>generate_block_json\<close>
  returns, and it calls the provider at most three times.  A provider whose first two
  attempts fail and whose third attempt yields \<open>v\<close> gives \<open>v\<close> after exactly three calls
  with a delay of 2 between consecutive calls.  A provider whose three attempts all fail
  gives \<open>None\<close> after exactly three calls with the same delays between them (a further
  delay follows the last call when that call returned an empty response or left no
  candidate string).
\<close>

theorem generate_block_json_retries:
  assumes "vertex_setup vx img = None" and "generative_model vx = None"
  shows "(\<exists>result. fst (generate_block_json lib vx img arg) = Inr result)
       \<and> (attempt_fails lib (generate_content vx img (py_str lib arg) 0)
          \<and> attempt_fails lib (generate_content vx img (py_str lib arg) 1)
          \<and> attempt_yields lib (generate_content vx img (py_str lib arg) 2) v
          \<longrightarrow> generate_block_json lib vx img arg
                = (Inr v, [Call 0, Sleep 2, Call 1, Sleep 2, Call 2]))
       \<and> (attempt_fails lib (generate_content vx img (py_str lib arg) 0)
          \<and> attempt_fails lib (generate_content vx img (py_str lib arg) 1)
          \<and> attempt_fails lib (generate_content vx img (py_str lib arg) 2)
          \<longrightarrow> fst (generate_block_json lib vx img arg) = Inr PNone
              \<and> (snd (generate_block_json lib vx img arg) = [Call 0, Sleep 2, Call 1, Sleep 2, Call 2]
                 \<or> snd (generate_block_json lib vx img arg)
                      = [Call 0, Sleep 2, Call 1, Sleep 2, Call 2, Sleep 2]))
       \<and> length (filter is_call (snd (generate_block_json lib vx img arg))) \<le> 3"
proof -
  define run where
    "run = attempt_loop lib (generate_content vx img (py_str lib arg)) [0 ..< MAX_RETRIES] []"
  have g: "generate_block_json lib vx img arg = (Inr (fst run), snd run)"
    unfolding run_def using assms by (rule generate_block_json_loop)
  have returns: "\<exists>result. fst (generate_block_json lib vx img arg) = Inr result"
    by (simp add: g)
  have calls: "length (filter is_call (snd (generate_block_json lib vx img arg))) \<le> 3"
    unfolding g run_def
    using attempt_loop_calls[of lib "generate_content vx img (py_str lib arg)" "[0 ..< MAX_RETRIES]" "[]"]
    by (simp add: MAX_RETRIES_def)
  have third: "generate_block_json lib vx img arg
                = (Inr v, [Call 0, Sleep 2, Call 1, Sleep 2, Call 2])"
    if "attempt_fails lib (generate_content vx img (py_str lib arg) 0)"
      and "attempt_fails lib (generate_content vx img (py_str lib arg) 1)"
      and "attempt_yields lib (generate_content vx img (py_str lib arg) 2) v"
    unfolding g run_def using retry_third_succeeds[OF that] by simp
  have none: "fst (generate_block_json lib vx img arg) = Inr PNone
              \<and> (snd (generate_block_json lib vx img arg) = [Call 0, Sleep 2, Call 1, Sleep 2, Call 2]
                 \<or> snd (generate_block_json lib vx img arg)
                      = [Call 0, Sleep 2, Call 1, Sleep 2, Call 2, Sleep 2])"
    if "attempt_fails lib (generate_content vx img (py_str lib arg) 0)"
      and "attempt_fails lib (generate_content vx img (py_str lib arg) 1)"
      and "attempt_fails lib (generate_content vx img (py_str lib arg) 2)"
    unfolding g run_def using retry_all_fail[OF that] by simp
  from returns third none calls show ?thesis by blast
qed

text \<open>
  The property at the flaky provider and at the provider that is down, for an image
  string that decodes.
\<close>

theorem generate_block_json_retries_witness:
  "vertex_setup flaky_vertex ''aW1n'' = None \<and> generative_model flaky_vertex = None
   \<and> generate_block_json demo_lib flaky_vertex ''aW1n'' (PStr ''blocks'')
     = (Inr (PDict [(PStr ''a'', PInt 1)]), [Call 0, Sleep 2, Call 1, Sleep 2, Call 2])
   \<and> vertex_setup down_vertex ''aW1n'' = None \<and> generative_model down_vertex = None
   \<and> fst (generate_block_json demo_lib down_vertex ''aW1n'' (PStr ''blocks'')) = Inr PNone"
proof -
  have c1: "clean_llm_response_to_json_string ''no json here'' = ''no json here''"
    by (simp add: clean_llm_response_to_json_string_def strip_markdown_fence_def json_fence_def
        py_strip_def py_isspace_def startswith_def Let_def py_rfind_def)
  have c2: \<open>clean_llm_response_to_json_string fenced_response = ''{"a":1}''\<close>
    by (simp add: clean_llm_response_to_json_string_def strip_markdown_fence_def
        fenced_response_def json_fence_def backticks_def py_strip_def py_isspace_def
        startswith_def endswith_def Let_def py_rfind_def py_slice_def)
  have f0: "attempt_fails demo_lib (generate_content flaky_vertex ''aW1n'' (py_str demo_lib (PStr ''blocks'')) 0)"
    by (simp add: attempt_fails_def flaky_vertex_def)
  have f1: "attempt_fails demo_lib (generate_content flaky_vertex ''aW1n'' (py_str demo_lib (PStr ''blocks'')) 1)"
    by (simp add: attempt_fails_def flaky_vertex_def c1 demo_lib_def hi_enriched_text_def)
  have y2: "attempt_yields demo_lib (generate_content flaky_vertex ''aW1n'' (py_str demo_lib (PStr ''blocks'')) 2)
              (PDict [(PStr ''a'', PInt 1)])"
    by (simp add: attempt_yields_def flaky_vertex_def c2 demo_lib_def hi_enriched_text_def)
  have s1: "vertex_setup flaky_vertex ''aW1n'' = None"
    by (simp add: flaky_vertex_def)
  have m1: "generative_model flaky_vertex = None"
    by (simp add: flaky_vertex_def)
  have d: "attempt_fails demo_lib (generate_content down_vertex ''aW1n'' (py_str demo_lib (PStr ''blocks'')) n)" for n
    by (simp add: attempt_fails_def down_vertex_def)
  have s2: "vertex_setup down_vertex ''aW1n'' = None"
    by (simp add: down_vertex_def)
  have m2: "generative_model down_vertex = None"
    by (simp add: down_vertex_def)
  from generate_block_json_retries[OF s1 m1, of demo_lib "PStr ''blocks''" "PDict [(PStr ''a'', PInt 1)]"]
    f0 f1 y2
  have a: "generate_block_json demo_lib flaky_vertex ''aW1n'' (PStr ''blocks'')
     = (Inr (PDict [(PStr ''a'', PInt 1)]), [Call 0, Sleep 2, Call 1, Sleep 2, Call 2])"
    by blast
  from generate_block_json_retries[OF s2 m2, of demo_lib "PStr ''blocks''"] d
  have b: "fst (generate_block_json demo_lib down_vertex ''aW1n'' (PStr ''blocks'')) = Inr PNone"
    by blast
  from s1 m1 a s2 m2 b show ?thesis by (intro conjI)
qed

subsection \<open>Fallback enrichment\<close>

lemma dict_set_fresh: "k \<notin> fst ` set d \<Longrightarrow> dict_set d k v = d @ [(k, v)]"
  by (induction d) auto

lemma fallback_loop_eq:
  assumes "\<forall>(k, b) \<in> set items. \<exists>bd. b = PDict bd"
    and "distinct (map fst acc @ map fst items)"
  shows "fallback_loop lib items acc =
     Inr (acc @ map (\<lambda>(k, b). (k, case b of PDict bd \<Rightarrow> fallback_block lib bd | _ \<Rightarrow> PNone)) items)"
  using assms
proof (induction items arbitrary: acc)
  case Nil
  then show ?case by simp
next
  case (Cons kb items)
  obtain k b where kb: "kb = (k, b)" by (cases kb)
  from Cons.prems(1) kb obtain bd where b: "b = PDict bd" by auto
  from Cons.prems(2) kb have fresh: "k \<notin> fst ` set acc" by auto
  have d: "distinct (map fst (acc @ [(k, fallback_block lib bd)]) @ map fst items)"
    using Cons.prems(2) kb by auto
  have r: "\<forall>(k, b) \<in> set items. \<exists>bd. b = PDict bd" using Cons.prems(1) by auto
  show ?case
    using Cons.IH[OF r d] by (simp add: kb b dict_set_fresh[OF fresh])
qed

lemma fallback_block_again:
  "fallback_block lib [(PStr ''text'', t), (PStr ''words'', w), (PStr ''bounding_boxes'', bb),
                       (PStr ''ssml'', PStr (ssml_wrap (py_str lib t))), (PStr ''dialog'', d),
                       (PStr ''person_type'', p)]
   = PDict [(PStr ''text'', t), (PStr ''words'', w), (PStr ''bounding_boxes'', bb),
            (PStr ''ssml'', PStr (ssml_wrap (py_str lib t))), (PStr ''dialog'', PStr ''false''),
            (PStr ''person_type'', PStr ''null'')]"
  by (simp add: fallback_block_def dict_get_def)

lemma fallback_block_idem:
  "fallback_block lib bd = PDict bd' \<Longrightarrow> fallback_block lib bd' = PDict bd'"
  by (auto simp: fallback_block_def dict_get_def)

lemma create_fallback_eq:
  assumes "loads lib s = Some (PDict blocks)" and "distinct (map fst blocks)"
    and "\<forall>(k, b) \<in> set blocks. \<exists>bd. b = PDict bd"
  shows "create_fallback_block_json lib (PStr s) =
     PDict (map (\<lambda>(k, b). (k, case b of PDict bd \<Rightarrow> fallback_block lib bd | _ \<Rightarrow> PNone)) blocks)"
  using assms fallback_loop_eq[of blocks "[]" lib]
  by (simp add: create_fallback_block_json_def json_loads_def)

text \<open>
  Claim C3.  The fallback enrichment is a function of its argument.  Given the JSON text of
  a block mapping (distinct block ids, every block a record), it returns a mapping with
  exactly the same block ids in the same order.  Every block keeps its text, its words and
  its bounding boxes (an absent entry becomes empty) and gains the slow-prosody markup
  around its text, the dialog flag \<open>false\<close> and the person type \<open>null\<close>.  Applied to a
  JSON text of its own result it returns that result again.
\<close>

theorem create_fallback_block_json_enriches:
  assumes "loads lib s = Some (PDict blocks)" and "distinct (map fst blocks)"
    and "\<forall>(block_id, block_data) \<in> set blocks. \<exists>bd. block_data = PDict bd"
  shows "\<exists>out. create_fallback_block_json lib (PStr s) = PDict out
     \<and> map fst out = map fst blocks
     \<and> (\<forall>(block_id, block_data) \<in> set blocks. \<forall>bd t.
           block_data = PDict bd \<and> map_of bd (PStr ''text'') = Some (PStr t)
           \<longrightarrow> map_of out block_id = Some (PDict
                 [(PStr ''text'', PStr t),
                  (PStr ''words'', dict_get bd (PStr ''words'') (PList [])),
                  (PStr ''bounding_boxes'', dict_get bd (PStr ''bounding_boxes'') (PList [])),
                  (PStr ''ssml'', PStr (''<speak><prosody rate='' @ [CHR 0x27] @ ''slow'' @ [CHR 0x27]
                                         @ ''>'' @ t @ ''</prosody></speak>'')),
                  (PStr ''dialog'', PStr ''false''), (PStr ''person_type'', PStr ''null'')]))
     \<and> (\<forall>s'. loads lib s' = Some (PDict out)
           \<longrightarrow> create_fallback_block_json lib (PStr s') = PDict out)"
proof -
  define f where "f = (\<lambda>(k::pyval, b). (k, case b of PDict bd \<Rightarrow> fallback_block lib bd | _ \<Rightarrow> PNone))"
  define out where "out = map f blocks"
  have run: "create_fallback_block_json lib (PStr s) = PDict out"
    using create_fallback_eq[OF assms] by (simp add: out_def f_def)
  have keys: "map fst out = map fst blocks"
    by (auto simp: out_def f_def)
  have fields: "map_of out block_id = Some (PDict
                 [(PStr ''text'', PStr t),
                  (PStr ''words'', dict_get bd (PStr ''words'') (PList [])),
                  (PStr ''bounding_boxes'', dict_get bd (PStr ''bounding_boxes'') (PList [])),
                  (PStr ''ssml'', PStr (''<speak><prosody rate='' @ [CHR 0x27] @ ''slow'' @ [CHR 0x27]
                                         @ ''>'' @ t @ ''</prosody></speak>'')),
                  (PStr ''dialog'', PStr ''false''), (PStr ''person_type'', PStr ''null'')])"
    if "(block_id, block_data) \<in> set blocks" "block_data = PDict bd"
      "map_of bd (PStr ''text'') = Some (PStr t)" for block_id block_data bd t
  proof -
    from that(1) have "(block_id, snd (f (block_id, block_data))) \<in> set out"
      by (force simp: out_def f_def)
    moreover have "distinct (map fst out)" using keys assms(2) by simp
    ultimately have "map_of out block_id = Some (snd (f (block_id, block_data)))"
      by simp
    then show ?thesis
      using that(2,3) by (simp add: f_def fallback_block_def dict_get_def ssml_wrap_def py_str_def)
  qed
  have again: "create_fallback_block_json lib (PStr s') = PDict out"
    if l: "loads lib s' = Some (PDict out)" for s'
  proof -
    have dicts: "\<forall>(k, b) \<in> set out. \<exists>bd. b = PDict bd"
      using assms(3) by (fastforce simp: out_def f_def fallback_block_def)
    have d: "distinct (map fst out)" using keys assms(2) by simp
    have "map (\<lambda>(k, b). (k, case b of PDict bd \<Rightarrow> fallback_block lib bd | _ \<Rightarrow> PNone)) out = out"
    proof (rule map_idI)
      fix kb assume m: "kb \<in> set out"
      then obtain k0 b0 where kb0: "(k0, b0) \<in> set blocks" "kb = f (k0, b0)"
        by (auto simp: out_def)
      from assms(3) kb0(1) obtain bd where "b0 = PDict bd" by auto
      then have "kb = (k0, fallback_block lib bd)" using kb0(2) by (simp add: f_def)
      moreover obtain bd' where "fallback_block lib bd = PDict bd'"
        by (simp add: fallback_block_def)
      ultimately show "(case kb of (k, b) \<Rightarrow> (k, case b of PDict bd \<Rightarrow> fallback_block lib bd | _ \<Rightarrow> PNone)) = kb"
        using fallback_block_idem[of lib bd bd'] by simp
    qed
    with create_fallback_eq[OF l d dicts] show ?thesis by simp
  qed
  from run keys fields again show ?thesis by blast
qed


text \<open>
  The property at the mapping with the single block \<open>0\<close> of text \<open>Hi\<close>, and at the JSON
  text of its enrichment.
\<close>

theorem create_fallback_block_json_enriches_witness:
  \<open>create_fallback_block_json demo_lib (PStr ''{"0": {"text": "Hi"}}'') = hi_enriched
   \<and> create_fallback_block_json demo_lib (PStr hi_enriched_text) = hi_enriched\<close>
proof -
  let ?blocks = "[(PStr ''0'', PDict [(PStr ''text'', PStr ''Hi'')])]"
  have l: \<open>loads demo_lib ''{"0": {"text": "Hi"}}'' = Some (PDict ?blocks)\<close>
    by (simp add: demo_lib_def hi_blocks_def)
  have d: "distinct (map fst ?blocks)" by simp
  have a: "\<forall>(block_id, block_data) \<in> set ?blocks. \<exists>bd. block_data = PDict bd" by simp
  from create_fallback_block_json_enriches[OF l d a]
  obtain out where run: \<open>create_fallback_block_json demo_lib (PStr ''{"0": {"text": "Hi"}}'') = PDict out\<close>
    and keys: "map fst out = [PStr ''0'']"
    and fields: "\<And>block_id block_data bd t. (block_id, block_data) \<in> set ?blocks \<Longrightarrow>
           block_data = PDict bd \<Longrightarrow> map_of bd (PStr ''text'') = Some (PStr t)
           \<Longrightarrow> map_of out block_id = Some (PDict
                 [(PStr ''text'', PStr t),
                  (PStr ''words'', dict_get bd (PStr ''words'') (PList [])),
                  (PStr ''bounding_boxes'', dict_get bd (PStr ''bounding_boxes'') (PList [])),
                  (PStr ''ssml'', PStr (''<speak><prosody rate='' @ [CHR 0x27] @ ''slow'' @ [CHR 0x27]
                                         @ ''>'' @ t @ ''</prosody></speak>'')),
                  (PStr ''dialog'', PStr ''false''), (PStr ''person_type'', PStr ''null'')])"
    and again: "\<And>s'. loads demo_lib s' = Some (PDict out)
           \<Longrightarrow> create_fallback_block_json demo_lib (PStr s') = PDict out"
    by auto
  from keys obtain v where out: "out = [(PStr ''0'', v)]"
    by (cases out) auto
  from fields[of "PStr ''0''" "PDict [(PStr ''text'', PStr ''Hi'')]" "[(PStr ''text'', PStr ''Hi'')]" "''Hi''"]
  have "PDict out = hi_enriched"
    by (simp add: out hi_enriched_def dict_get_def)
  moreover from this have "loads demo_lib hi_enriched_text = Some (PDict out)"
    by (simp add: demo_lib_def hi_enriched_text_def)
  ultimately show ?thesis using run again by simp
qed

subsection \<open>Chunked enrichment\<close>

lemma map_fst_dict_set:
  "map fst (dict_set d k v) = (if k \<in> set (map fst d) then map fst d else map fst d @ [k])"
  by (induction d) force+

lemma keys_dict_set: "fst ` set (dict_set d k v) = insert k (fst ` set d)"
proof -
  have "set (map fst (dict_set d k v)) = insert k (set (map fst d))"
    unfolding map_fst_dict_set by (auto split: if_splits)
  then show ?thesis by simp
qed

lemma keys_dict_update: "fst ` set (dict_update d e) = fst ` set d \<union> fst ` set e"
  by (induction d e rule: dict_update.induct) (auto simp: keys_dict_set)

lemma chunk_of_slice:
  assumes "distinct (map fst d)" "set xs \<subseteq> set d" "distinct (map fst acc @ map fst xs)"
  shows "chunk_of d (map fst xs) acc = Inr (acc @ xs)"
  using assms(2,3)
proof (induction xs arbitrary: acc)
  case Nil
  then show ?case by simp
next
  case (Cons kv xs)
  obtain k v where kv: "kv = (k, v)" by (cases kv)
  from Cons.prems(1) kv have "(k, v) \<in> set d" by simp
  with assms(1) have m: "map_of d k = Some v" by simp
  from Cons.prems(2) kv have fresh: "k \<notin> fst ` set acc" by auto
  have "distinct (map fst (acc @ [(k, v)]) @ map fst xs)" using Cons.prems(2) kv by auto
  moreover have "set xs \<subseteq> set d" using Cons.prems(1) by simp
  ultimately have "chunk_of d (map fst xs) (acc @ [(k, v)]) = Inr ((acc @ [(k, v)]) @ xs)"
    by (rule Cons.IH[rotated])
  then show ?case by (simp add: kv m dict_set_fresh[OF fresh])
qed

lemma chunk_of_take_drop:
  assumes "distinct (map fst d)"
  shows "chunk_of d (take c (drop i (map fst d))) [] = Inr (take c (drop i d))"
proof -
  have 1: "take c (drop i (map fst d)) = map fst (take c (drop i d))"
    by (simp add: take_map drop_map)
  have 2: "set (take c (drop i d)) \<subseteq> set d"
    by (meson set_take_subset set_drop_subset subset_trans)
  have "distinct (map fst (take c (drop i d)))"
    using assms by (simp add: 1[symmetric] distinct_take distinct_drop)
  then show ?thesis
    unfolding 1 using chunk_of_slice[OF assms 2, of "[]"] by simp
qed

lemma chunk_loop_step:
  assumes "distinct (map fst d)"
  shows "chunk_loop lib vx img d c (i # rest) final tr =
     (let p = generate_block_json lib vx img (PStr (dumps lib (PDict (take c (drop i d)))))
      in case fst p of
           Inl e \<Rightarrow> (Inl e, tr @ snd p)
         | Inr processed_chunk \<Rightarrow>
             if truthy processed_chunk
             then (case py_update final processed_chunk of
                     Inl e \<Rightarrow> (Inl e, tr @ snd p)
                   | Inr final' \<Rightarrow> chunk_loop lib vx img d c rest final' (tr @ snd p))
             else (Inr PNone, tr @ snd p))"
  by (cases "generate_block_json lib vx img (PStr (dumps lib (PDict (take c (drop i d)))))")
     (simp add: chunk_of_take_drop[OF assms] Let_def split: sum.splits)

lemma chunk_loop_success:
  assumes "distinct (map fst d)"
    and "\<forall>i \<in> set starts. \<exists>e. e \<noteq> [] \<and> chunk_result lib vx img (take c (drop i d)) = PDict e"
  shows "fst (chunk_loop lib vx img d c starts final tr) =
     Inr (PDict (foldl (\<lambda>out ch. dict_update out (dict_items (chunk_result lib vx img ch))) final
                   (map (\<lambda>i. take c (drop i d)) starts)))"
  using assms(2)
proof (induction starts arbitrary: final tr)
  case Nil
  then show ?case by simp
next
  case (Cons i starts)
  from Cons.prems obtain e where e: "e \<noteq> []" "chunk_result lib vx img (take c (drop i d)) = PDict e"
    by auto
  from e(2) have r: "fst (generate_block_json lib vx img (PStr (dumps lib (PDict (take c (drop i d))))))
      = Inr (PDict e)"
    by (simp add: chunk_result_def split: sum.splits)
  have rest: "\<forall>i \<in> set starts. \<exists>e. e \<noteq> [] \<and> chunk_result lib vx img (take c (drop i d)) = PDict e"
    using Cons.prems by simp
  show ?case
    using e r Cons.IH[OF rest]
    by (simp add: chunk_loop_step[OF assms(1)] Let_def py_update_def dict_items_def
        del: chunk_loop.simps)
qed

lemma chunk_loop_failure:
  assumes "distinct (map fst d)"
    and "\<exists>i \<in> set starts. \<not> truthy (chunk_result lib vx img (take c (drop i d)))"
  shows "fst (chunk_loop lib vx img d c starts final tr) = Inr PNone
         \<or> (\<exists>e. fst (chunk_loop lib vx img d c starts final tr) = Inl e)"
  using assms(2)
proof (induction starts arbitrary: final tr)
  case Nil
  then show ?case by simp
next
  case (Cons i starts)
  show ?case
  proof (cases "truthy (chunk_result lib vx img (take c (drop i d)))")
    case False
    then show ?thesis
      by (simp add: chunk_loop_step[OF assms(1)] Let_def chunk_result_def del: chunk_loop.simps
          split: sum.splits)
  next
    case True
    with Cons.prems have rest: "\<exists>i \<in> set starts. \<not> truthy (chunk_result lib vx img (take c (drop i d)))"
      by auto
    show ?thesis
      using True Cons.IH[OF rest]
      by (auto simp: chunk_loop_step[OF assms(1)] Let_def chunk_result_def
          simp del: chunk_loop.simps split: sum.splits)
  qed
qed

lemma concat_chunks_take:
  "concat (map (\<lambda>j. take c (drop (j * c) xs)) [0 ..< k]) = take (k * c) xs"
proof (induction k)
  case 0
  then show ?case by simp
next
  case (Suc k)
  have "take (k * c + c) xs = take (k * c) xs @ take c (drop (k * c) xs)"
    by (rule take_add)
  with Suc show ?case by (simp add: add.commute)
qed

lemma ceil_cover: "0 < c \<Longrightarrow> n \<le> ((n + c - 1) div c) * c" for c n :: nat
proof -
  assume c: "0 < c"
  have "n + c - 1 = ((n + c - 1) div c) * c + (n + c - 1) mod c" by simp
  moreover have "(n + c - 1) mod c < c" using c by simp
  ultimately show ?thesis using c by linarith
qed

lemma start_in_range: "0 < c \<Longrightarrow> j < (n + c - 1) div c \<Longrightarrow> j * c + 1 \<le> n" for c n j :: nat
proof -
  assume c: "0 < c" and j: "j < (n + c - 1) div c"
  then have "Suc j \<le> (n + c - 1) div c" by simp
  then have "Suc j * c \<le> n + c - 1"
    using c by (simp add: less_eq_div_iff_mult_less_eq)
  then show ?thesis using c by simp
qed

lemma butlast_upt0: "butlast [0 ..< k] = [0 ..< k - 1]"
  by (simp add: butlast_conv_take)

lemma chunks_partition:
  assumes "0 < c"
  shows "concat (chunks_of c xs) = xs"
    and "\<forall>ch \<in> set (chunks_of c xs). ch \<noteq> [] \<and> length ch \<le> c"
    and "\<forall>ch \<in> set (butlast (chunks_of c xs)). length ch = c"
proof -
  show "concat (chunks_of c xs) = xs"
    using ceil_cover[OF assms, of "length xs"]
    by (simp add: chunks_of_def concat_chunks_take)
  show "\<forall>ch \<in> set (chunks_of c xs). ch \<noteq> [] \<and> length ch \<le> c"
    using start_in_range[OF assms, of _ "length xs"]
    by (fastforce simp: chunks_of_def)
  show "\<forall>ch \<in> set (butlast (chunks_of c xs)). length ch = c"
  proof
    fix ch assume "ch \<in> set (butlast (chunks_of c xs))"
    then obtain j where j: "j < (length xs + c - 1) div c - 1" and ch: "ch = take c (drop (j * c) xs)"
      by (auto simp: chunks_of_def map_butlast[symmetric] butlast_upt0)
    from j have "Suc j < (length xs + c - 1) div c" by simp
    from start_in_range[OF assms this] have "j * c + c < length xs" by simp
    then show "length ch = c" by (simp add: ch)
  qed
qed

lemma keys_foldl_update:
  "fst ` set (foldl (\<lambda>out ch. dict_update out (f ch)) init chs)
     = fst ` set init \<union> (\<Union>ch \<in> set chs. fst ` set (f ch))"
  by (induction chs arbitrary: init) (auto simp: keys_dict_update)

lemma chunk_and_process_unfold:
  assumes "loads lib s = Some (PDict d)" and "0 < chunk_size"
  shows "fst (chunk_and_process_json lib vx img (PStr s) chunk_size) =
     (case fst (chunk_loop lib vx img d (nat chunk_size)
                  (map (\<lambda>j. j * nat chunk_size) [0 ..< (length d + nat chunk_size - 1) div nat chunk_size])
                  [] []) of
        Inl e \<Rightarrow> PNone
      | Inr result \<Rightarrow> result)"
  using assms
  by (simp add: chunk_and_process_json_def json_loads_def py_range_step_def
      split: prod.splits sum.splits)

lemma starts_slices:
  "map (\<lambda>i. take c (drop i d)) (map (\<lambda>j. j * c) [0 ..< k]) = map (\<lambda>j. take c (drop (j * c) d)) [0 ..< k]"
  by simp

text \<open>
  A chunk size that is not positive leaves nothing to partition: zero is rejected by
  \<open>range\<close>, which the handler turns into \<open>None\<close>, and a negative size gives an empty
  range, so that the empty mapping is returned without any call of the provider.
\<close>

lemma chunk_and_process_json_nonpositive:
  assumes "loads lib s = Some (PDict all_blocks)"
  shows "chunk_and_process_json lib vx img (PStr s) 0 = (PNone, [])"
    and "chunk_size < 0 \<Longrightarrow> chunk_and_process_json lib vx img (PStr s) chunk_size = (PDict [], [])"
  using assms
  by (simp_all add: chunk_and_process_json_def json_loads_def py_range_step_def)

text \<open>
  Claim C5.  Given the JSON text of a block mapping and a chunk size of at least one,
  \<open>chunk_and_process_json\<close> works on the consecutive slices of the mapping in key order:
  together they are the whole mapping, each has at most \<open>chunk_size\<close> blocks and all but
  the last have exactly that many.  When every chunk's result is a non-empty mapping the
  function returns the merge of the results in chunk order, whose keys are the block ids
  of the results.  When the result of some chunk is \<open>None\<close> or empty, or the call for it
  raises, the function returns \<open>None\<close>: no partial mapping is returned.
\<close>

theorem chunk_and_process_json_all_or_nothing:
  assumes "loads lib s = Some (PDict all_blocks)" and "distinct (map fst all_blocks)"
    and "0 < chunk_size"
  shows "concat (chunks_of (nat chunk_size) all_blocks) = all_blocks
     \<and> (\<forall>ch \<in> set (chunks_of (nat chunk_size) all_blocks). ch \<noteq> [] \<and> int (length ch) \<le> chunk_size)
     \<and> (\<forall>ch \<in> set (butlast (chunks_of (nat chunk_size) all_blocks)). int (length ch) = chunk_size)
     \<and> ((\<forall>ch \<in> set (chunks_of (nat chunk_size) all_blocks).
            \<exists>e. e \<noteq> [] \<and> chunk_result lib vx img ch = PDict e)
         \<longrightarrow> (\<exists>out. fst (chunk_and_process_json lib vx img (PStr s) chunk_size) = PDict out
                \<and> out = foldl (\<lambda>out ch. dict_update out (dict_items (chunk_result lib vx img ch))) []
                          (chunks_of (nat chunk_size) all_blocks)
                \<and> fst ` set out = (\<Union>ch \<in> set (chunks_of (nat chunk_size) all_blocks).
                                      fst ` set (dict_items (chunk_result lib vx img ch)))))
     \<and> ((\<exists>ch \<in> set (chunks_of (nat chunk_size) all_blocks). \<not> truthy (chunk_result lib vx img ch))
         \<longrightarrow> fst (chunk_and_process_json lib vx img (PStr s) chunk_size) = PNone)"
proof -
  define c where "c = nat chunk_size"
  have c: "0 < c" using assms(3) by (simp add: c_def)
  define starts where "starts = map (\<lambda>j. j * c) [0 ..< (length all_blocks + c - 1) div c]"
  have sl: "map (\<lambda>i. take c (drop i all_blocks)) starts = chunks_of c all_blocks"
    by (simp add: starts_def chunks_of_def)
  have run: "fst (chunk_and_process_json lib vx img (PStr s) chunk_size) =
     (case fst (chunk_loop lib vx img all_blocks c starts [] []) of Inl e \<Rightarrow> PNone | Inr result \<Rightarrow> result)"
    using chunk_and_process_unfold[OF assms(1,3)] by (simp add: c_def starts_def)
  have p1: "concat (chunks_of c all_blocks) = all_blocks"
    and p2: "\<forall>ch \<in> set (chunks_of c all_blocks). ch \<noteq> [] \<and> int (length ch) \<le> chunk_size"
    and p3: "\<forall>ch \<in> set (butlast (chunks_of c all_blocks)). int (length ch) = chunk_size"
    using chunks_partition[OF c, of all_blocks] assms(3) by (auto simp: c_def)
  have ok: "\<exists>out. fst (chunk_and_process_json lib vx img (PStr s) chunk_size) = PDict out
                \<and> out = foldl (\<lambda>out ch. dict_update out (dict_items (chunk_result lib vx img ch))) []
                          (chunks_of c all_blocks)
                \<and> fst ` set out = (\<Union>ch \<in> set (chunks_of c all_blocks).
                                      fst ` set (dict_items (chunk_result lib vx img ch)))"
    if all: "\<forall>ch \<in> set (chunks_of c all_blocks). \<exists>e. e \<noteq> [] \<and> chunk_result lib vx img ch = PDict e"
  proof -
    from all have "\<forall>i \<in> set starts. \<exists>e. e \<noteq> [] \<and> chunk_result lib vx img (take c (drop i all_blocks)) = PDict e"
      unfolding sl[symmetric] by simp
    from chunk_loop_success[OF assms(2) this, of "[]" "[]"]
    have "fst (chunk_and_process_json lib vx img (PStr s) chunk_size)
      = PDict (foldl (\<lambda>out ch. dict_update out (dict_items (chunk_result lib vx img ch))) []
                 (chunks_of c all_blocks))"
      unfolding run sl by simp
    then show ?thesis
      using keys_foldl_update[of "\<lambda>ch. dict_items (chunk_result lib vx img ch)" "[]" "chunks_of c all_blocks"]
      by simp
  qed
  have bad: "fst (chunk_and_process_json lib vx img (PStr s) chunk_size) = PNone"
    if ex: "\<exists>ch \<in> set (chunks_of c all_blocks). \<not> truthy (chunk_result lib vx img ch)"
  proof -
    from ex have "\<exists>i \<in> set starts. \<not> truthy (chunk_result lib vx img (take c (drop i all_blocks)))"
      unfolding sl[symmetric] by simp
    from chunk_loop_failure[OF assms(2) this, of "[]" "[]"]
    show ?thesis unfolding run by auto
  qed
  from p1 p2 p3 ok bad show ?thesis unfolding c_def by blast
qed

text \<open>
  Claim C10.  When \<open>generate_block_json\<close> returns the empty mapping for some chunk, the
  page fails as a whole: \<open>chunk_and_process_json\<close> returns \<open>None\<close>, as it does for a
  chunk that failed.
\<close>

theorem empty_chunk_result_fails_page:
  assumes "loads lib s = Some (PDict all_blocks)" and "distinct (map fst all_blocks)"
    and "0 < chunk_size"
    and "ch \<in> set (chunks_of (nat chunk_size) all_blocks)"
    and "generate_block_json lib vx img (PStr (dumps lib (PDict ch))) = (Inr (PDict []), tr)"
  shows "fst (chunk_and_process_json lib vx img (PStr s) chunk_size) = PNone"
proof -
  define c where "c = nat chunk_size"
  define starts where "starts = map (\<lambda>j. j * c) [0 ..< (length all_blocks + c - 1) div c]"
  have sl: "map (\<lambda>i. take c (drop i all_blocks)) starts = chunks_of c all_blocks"
    by (simp add: starts_def chunks_of_def)
  have "\<not> truthy (chunk_result lib vx img ch)"
    using assms(5) by (simp add: chunk_result_def)
  with assms(4) have "\<exists>ch \<in> set (chunks_of c all_blocks). \<not> truthy (chunk_result lib vx img ch)"
    unfolding c_def by blast
  then have "\<exists>i \<in> set starts. \<not> truthy (chunk_result lib vx img (take c (drop i all_blocks)))"
    unfolding sl[symmetric] by simp
  from chunk_loop_failure[OF assms(2) this, of "[]" "[]"]
  show ?thesis
    using chunk_and_process_unfold[OF assms(1,3), of vx img]
    by (auto simp: c_def starts_def)
qed

lemma clean_hi: \<open>clean_llm_response_to_json_string ''{"0": {"text": "Hi"}}'' = ''{"0": {"text": "Hi"}}''\<close>
  by (simp add: clean_llm_response_to_json_string_def strip_markdown_fence_def json_fence_def
      py_strip_def py_isspace_def startswith_def Let_def py_rfind_def py_slice_def)

lemma clean_yo: \<open>clean_llm_response_to_json_string ''{"1": {"text": "Yo"}}'' = ''{"1": {"text": "Yo"}}''\<close>
  by (simp add: clean_llm_response_to_json_string_def strip_markdown_fence_def json_fence_def
      py_strip_def py_isspace_def startswith_def Let_def py_rfind_def py_slice_def)

lemma clean_empty_object: \<open>clean_llm_response_to_json_string ''{}'' = ''{}''\<close>
  by (simp add: clean_llm_response_to_json_string_def strip_markdown_fence_def json_fence_def
      py_strip_def py_isspace_def startswith_def Let_def py_rfind_def py_slice_def)

lemma chunks_two: "chunks_of (nat 1) two_blocks =
    [[(PStr ''0'', PDict [(PStr ''text'', PStr ''Hi'')])], [(PStr ''1'', PDict [(PStr ''text'', PStr ''Yo'')])]]"
  by (simp add: chunks_of_def two_blocks_def upt_rec)

lemma dumps_hi: \<open>dumps demo_lib (PDict [(PStr ''0'', PDict [(PStr ''text'', PStr ''Hi'')])]) = ''{"0": {"text": "Hi"}}''\<close>
  by (simp add: demo_lib_def hi_blocks_def)

lemma dumps_yo: \<open>dumps demo_lib (PDict [(PStr ''1'', PDict [(PStr ''text'', PStr ''Yo'')])]) = ''{"1": {"text": "Yo"}}''\<close>
  by (simp add: demo_lib_def hi_blocks_def yo_blocks_def)

lemma echo_hi: \<open>generate_block_json demo_lib echo_vertex ''aW1n'' (PStr ''{"0": {"text": "Hi"}}'') = (Inr hi_blocks, [Call 0])\<close>
  by (simp add: generate_block_json_def echo_vertex_def upt3 py_str_def clean_hi demo_lib_def)

lemma echo_yo: \<open>generate_block_json demo_lib echo_vertex ''aW1n'' (PStr ''{"1": {"text": "Yo"}}'') = (Inr yo_blocks, [Call 0])\<close>
  by (simp add: generate_block_json_def echo_vertex_def upt3 py_str_def clean_yo demo_lib_def)

lemma dropping_yo: \<open>generate_block_json demo_lib dropping_vertex ''aW1n'' (PStr ''{"1": {"text": "Yo"}}'') = (Inr (PDict []), [Call 0])\<close>
  by (simp add: generate_block_json_def dropping_vertex_def upt3 py_str_def clean_empty_object demo_lib_def)

lemma down_any: "generate_block_json demo_lib down_vertex ''aW1n'' (PStr x) = (Inr PNone, [Call 0, Sleep 2, Call 1, Sleep 2, Call 2])"
  unfolding generate_block_json_def upt3
  by (simp add: down_vertex_def MAX_RETRIES_def RETRY_DELAY_SECONDS_def)

lemma loads_two: \<open>loads demo_lib ''{"0": {"text": "Hi"}, "1": {"text": "Yo"}}'' = Some (PDict two_blocks)\<close>
  by (simp add: demo_lib_def)

lemma distinct_two: "distinct (map fst two_blocks)"
  by (simp add: two_blocks_def)

lemma unconfigured_chunks:
  \<open>fst (chunk_and_process_json demo_lib unconfigured_vertex ''aW1n''
          (PStr ''{"0": {"text": "Hi"}, "1": {"text": "Yo"}}'') 1) = PNone\<close>
proof -
  have pos: "(0::int) < 1" by simp
  have starts: "map (\<lambda>j. j * nat 1) [0 ..< (length two_blocks + nat 1 - 1) div nat 1] = [0, 1]"
    by (simp add: two_blocks_def upt_rec)
  show ?thesis
    using chunk_and_process_unfold[OF loads_two pos, of unconfigured_vertex "''aW1n''"]
    unfolding starts
    by (simp add: chunk_loop_step[OF distinct_two] unconfigured_raises del: chunk_loop.simps)
qed

text \<open>
  The property at the mapping of two blocks with chunk size 1: the echoing provider gives
  the merge of both chunks, the provider that is down gives \<open>None\<close>.
\<close>

theorem chunk_and_process_json_all_or_nothing_witness:
  \<open>fst (chunk_and_process_json demo_lib echo_vertex ''aW1n''
          (PStr ''{"0": {"text": "Hi"}, "1": {"text": "Yo"}}'') 1) = PDict two_blocks
   \<and> fst (chunk_and_process_json demo_lib down_vertex ''aW1n''
          (PStr ''{"0": {"text": "Hi"}, "1": {"text": "Yo"}}'') 1) = PNone\<close>
proof -
  have pos: "(0::int) < 1" by simp
  have good: "\<forall>ch \<in> set (chunks_of (nat 1) two_blocks).
      \<exists>e. e \<noteq> [] \<and> chunk_result demo_lib echo_vertex ''aW1n'' ch = PDict e"
    unfolding chunks_two
    by (simp add: chunk_result_def dumps_hi dumps_yo echo_hi echo_yo hi_blocks_def yo_blocks_def)
  have merged: "foldl (\<lambda>out ch. dict_update out (dict_items (chunk_result demo_lib echo_vertex ''aW1n'' ch))) []
                  (chunks_of (nat 1) two_blocks) = two_blocks"
    unfolding chunks_two
    by (simp add: chunk_result_def dumps_hi dumps_yo echo_hi echo_yo hi_blocks_def yo_blocks_def
        dict_items_def two_blocks_def)
  have bad: "\<exists>ch \<in> set (chunks_of (nat 1) two_blocks). \<not> truthy (chunk_result demo_lib down_vertex ''aW1n'' ch)"
    unfolding chunks_two by (auto simp: chunk_result_def down_any)
  from chunk_and_process_json_all_or_nothing[OF loads_two distinct_two pos, of echo_vertex "''aW1n''"] good merged
  have a: \<open>fst (chunk_and_process_json demo_lib echo_vertex ''aW1n''
          (PStr ''{"0": {"text": "Hi"}, "1": {"text": "Yo"}}'') 1) = PDict two_blocks\<close>
    by auto
  from chunk_and_process_json_all_or_nothing[OF loads_two distinct_two pos, of down_vertex "''aW1n''"] bad
  have b: \<open>fst (chunk_and_process_json demo_lib down_vertex ''aW1n''
          (PStr ''{"0": {"text": "Hi"}, "1": {"text": "Yo"}}'') 1) = PNone\<close>
    by blast
  from a b show ?thesis by (rule conjI)
qed

text \<open>
  The property at the provider that answers the chunk of block 1 with the empty object:
  the chunk succeeds at its first attempt with the empty mapping, and the page fails.
\<close>

theorem empty_chunk_result_fails_page_witness:
  \<open>generate_block_json demo_lib dropping_vertex ''aW1n'' (PStr ''{"1": {"text": "Yo"}}'')
     = (Inr (PDict []), [Call 0])
   \<and> fst (chunk_and_process_json demo_lib dropping_vertex ''aW1n''
          (PStr ''{"0": {"text": "Hi"}, "1": {"text": "Yo"}}'') OUTPUT_CHUNK_SIZE) = PNone\<close>
proof -
  have pos: "0 < OUTPUT_CHUNK_SIZE" by (simp add: OUTPUT_CHUNK_SIZE_def)
  have mem: "[(PStr ''1'', PDict [(PStr ''text'', PStr ''Yo'')])] \<in> set (chunks_of (nat OUTPUT_CHUNK_SIZE) two_blocks)"
    using chunks_two by (simp add: OUTPUT_CHUNK_SIZE_def)
  have g: "generate_block_json demo_lib dropping_vertex ''aW1n''
             (PStr (dumps demo_lib (PDict [(PStr ''1'', PDict [(PStr ''text'', PStr ''Yo'')])])))
           = (Inr (PDict []), [Call 0])"
    by (simp only: dumps_yo dropping_yo)
  from empty_chunk_result_fails_page[OF loads_two distinct_two pos mem g] dropping_yo
  show ?thesis by (rule_tac conjI)
qed

subsection \<open>Synthesis without a provider\<close>

lemma map_of_dict_set: "map_of (dict_set d k v) = (map_of d)(k \<mapsto> v)"
  by (induction d) (auto simp: fun_eq_iff)

lemma file_at_snoc_write: "file_at (fs @ [Write p c]) q = (if q = p then Some c else file_at fs q)"
  by (simp add: file_at_def)

lemma path_join_block:
  "path_join output_dir (''block_'' @ r) =
     (if output_dir = [] \<or> endswith output_dir ''/'' then output_dir else output_dir @ ''/'')
       @ ''block_'' @ r"
  by (simp add: path_join_def startswith_def)

lemma block_paths_differ:
  "path_join output_dir (''block_'' @ block_id @ ''_audio.mp3'')
     \<noteq> path_join output_dir (''block_'' @ block_id @ ''_speech_marks.json'')"
  unfolding path_join_block by simp

text \<open>
  Claim C8.  Without a synthesis provider, \<open>save_audio_and_speech_marks\<close> does not fail
  for a block whose record is in the caller's mapping under the block's id: it returns
  the two paths, writes an empty audio file and the empty list of speech marks, and the
  block's record gains the entry \<open>timing\<close> with the empty list, while its other entries
  and the other blocks stay as they are.
\<close>

theorem save_audio_without_provider:
  assumes "map_of d (PStr (py_str lib block_key)) = Some (PDict block)"
  shows "\<exists>audio_path speech_marks_path block' d' fs'.
       save_audio_and_speech_marks lib None block_id ssml_output output_dir person_type
           (PDict d) block_key fs
         = (Inr (audio_path, speech_marks_path), PDict d', fs')
     \<and> fs' = fs @ [Write audio_path (Bytes []), Write speech_marks_path (Json (PList []))]
     \<and> file_at fs' audio_path = Some (Bytes [])
     \<and> file_at fs' speech_marks_path = Some (Json (PList []))
     \<and> map fst d' = map fst d
     \<and> map_of d' (PStr (py_str lib block_key)) = Some (PDict block')
     \<and> map_of block' (PStr ''timing'') = Some (PList [])
     \<and> (\<forall>field. field \<noteq> PStr ''timing'' \<longrightarrow> map_of block' field = map_of block field)
     \<and> (\<forall>k. k \<noteq> PStr (py_str lib block_key) \<longrightarrow> map_of d' k = map_of d k)"
proof -
  define k where "k = py_str lib block_key"
  define audio_path where "audio_path = path_join output_dir (''block_'' @ block_id @ ''_audio.mp3'')"
  define speech_marks_path where
    "speech_marks_path = path_join output_dir (''block_'' @ block_id @ ''_speech_marks.json'')"
  define block' where "block' = dict_set block (PStr ''timing'') (PList [])"
  define d' where "d' = dict_set d (PStr k) (PDict block')"
  define fs' where "fs' = fs @ [Write audio_path (Bytes []), Write speech_marks_path (Json (PList []))]"
  have mem: "PStr k \<in> fst ` set d"
    using assms by (auto simp: k_def dest: map_of_SomeD intro: rev_image_eqI)
  have at: "attach_timing lib (PDict d) block_key (PList []) = Inr (PDict d')"
    using assms mem by (simp add: attach_timing_def py_contains_def set_timing_def k_def d'_def block'_def)
  have run: "save_audio_and_speech_marks lib None block_id ssml_output output_dir person_type
           (PDict d) block_key fs = (Inr (audio_path, speech_marks_path), PDict d', fs')"
    by (simp add: save_audio_and_speech_marks_def Let_def at audio_path_def speech_marks_path_def fs'_def)
  have ne: "audio_path \<noteq> speech_marks_path"
    unfolding audio_path_def speech_marks_path_def by (rule block_paths_differ)
  have f1: "file_at fs' audio_path = Some (Bytes [])"
    using ne by (simp add: fs'_def file_at_def)
  have f2: "file_at fs' speech_marks_path = Some (Json (PList []))"
    by (simp add: fs'_def file_at_def)
  have keys: "map fst d' = map fst d"
    unfolding d'_def using mem by (simp add: map_fst_dict_set)
  have "map_of d' (PStr k) = Some (PDict block')"
    and "map_of block' (PStr ''timing'') = Some (PList [])"
    and "\<forall>field. field \<noteq> PStr ''timing'' \<longrightarrow> map_of block' field = map_of block field"
    and "\<forall>q. q \<noteq> PStr k \<longrightarrow> map_of d' q = map_of d q"
    by (simp_all add: d'_def block'_def map_of_dict_set)
  with run f1 f2 keys show ?thesis
    unfolding k_def fs'_def by blast
qed


text \<open>The property at block \<open>0\<close> of the mapping with the single block of text \<open>Hi\<close>.\<close>

theorem save_audio_without_provider_witness:
  "save_audio_and_speech_marks demo_lib None ''0_0'' (PStr ''<speak>Hi</speak>'') ''output/book-now''
       (PStr ''null'') hi_blocks (PStr ''0'') []
     = (Inr (''output/book-now/block_0_0_audio.mp3'', ''output/book-now/block_0_0_speech_marks.json''),
        PDict [(PStr ''0'', PDict [(PStr ''text'', PStr ''Hi''), (PStr ''timing'', PList [])])],
        [Write ''output/book-now/block_0_0_audio.mp3'' (Bytes []),
         Write ''output/book-now/block_0_0_speech_marks.json'' (Json (PList []))])"
proof -
  have h: "map_of [(PStr ''0'', PDict [(PStr ''text'', PStr ''Hi'')])] (PStr (py_str demo_lib (PStr ''0'')))
             = Some (PDict [(PStr ''text'', PStr ''Hi'')])"
    by (simp add: py_str_def)
  from save_audio_without_provider[OF h, of "''0_0''" "PStr ''<speak>Hi</speak>''" "''output/book-now''"
      "PStr ''null''" "[]"]
  obtain audio_path speech_marks_path block' d' fs' where
    run: "save_audio_and_speech_marks demo_lib None ''0_0'' (PStr ''<speak>Hi</speak>'') ''output/book-now''
           (PStr ''null'') (PDict [(PStr ''0'', PDict [(PStr ''text'', PStr ''Hi'')])]) (PStr ''0'') []
         = (Inr (audio_path, speech_marks_path), PDict d', fs')"
    by blast
  then show ?thesis
    by (simp add: hi_blocks_def save_audio_and_speech_marks_def attach_timing_def py_contains_def
        set_timing_def py_str_def path_join_def startswith_def endswith_def Let_def)
qed

subsection \<open>The request handler\<close>

lemma process_page_ignores_remove:
  "process_page lib vx polly_client (w\<lparr>os_remove := x\<rparr>) fname output_dir n pg vp st
     = process_page lib vx polly_client w fname output_dir n pg vp st"
proof -
  have p: "palette_draws (w\<lparr>os_remove := x\<rparr>) = palette_draws w" by simp
  show ?thesis unfolding process_page_def p by (rule refl)
qed

lemma pages_loop_ignores_remove:
  "pages_loop lib vx polly_client (w\<lparr>os_remove := x\<rparr>) fname output_dir n pgs results vp st
     = pages_loop lib vx polly_client w fname output_dir n pgs results vp st"
  by (induction pgs arbitrary: n results vp st)
     (simp_all add: process_page_ignores_remove split: prod.splits sum.splits)

lemma request_body_ignores_remove:
  "request_body lib vx polly_client (w\<lparr>os_remove := x\<rparr>) pdf_file st
     = request_body lib vx polly_client w pdf_file st"
proof -
  have p: "makedirs (w\<lparr>os_remove := x\<rparr>) = makedirs w"
    "named_temporary_file (w\<lparr>os_remove := x\<rparr>) = named_temporary_file w"
    "fitz_open (w\<lparr>os_remove := x\<rparr>) = fitz_open w" "now (w\<lparr>os_remove := x\<rparr>) = now w"
    by simp_all
  show ?thesis unfolding request_body_def p pages_loop_ignores_remove by (rule refl)
qed

lemma request_body_temp:
  "fst (snd (request_body lib vx polly_client w pdf_file st)) =
     (case makedirs w of
        Some e \<Rightarrow> None
      | None \<Rightarrow> (case named_temporary_file w of Inl e \<Rightarrow> None | Inr name \<Rightarrow> Some name))"
  by (simp add: request_body_def Let_def split: option.splits sum.splits prod.splits)

lemma file_at_removed: "file_at (fs @ [Remove name]) name = None"
  by (simp add: file_at_def)

lemma process_unfold:
  assumes "request_body lib vx polly_client w pdf_file st = (r, temp_pdf, st1)"
  shows "fst (process_tts_request lib vx polly_client w pdf_file st) =
     (case temp_pdf of
        None \<Rightarrow> Returned (body_result r)
      | Some name \<Rightarrow>
          (case os_remove w of
             None \<Rightarrow> Returned (body_result r)
           | Some e \<Rightarrow> if exn_cls e = PermissionError then Returned (body_result r) else Raised e))"
  using assms
  by (simp add: process_tts_request_def body_result_def Let_def split: option.splits sum.splits)


text \<open>
  Claim C9, as the code has it.  Once the temporary file has been created, every path
  through the \<open>try\<close> block ends in its removal.  When the removal succeeds the file is
  gone and the deletion is logged.  When it raises \<open>PermissionError\<close> a warning is logged
  and the function returns what it returns when the removal succeeds.  Any other
  exception of the removal is raised by the function.  When the temporary file could
  not be created the error dictionary is returned and no file is touched.
\<close>

theorem temp_file_cleanup:
  "(makedirs w = None \<and> named_temporary_file w = Inr name \<and> os_remove w = None
      \<longrightarrow> (\<exists>result st'. process_tts_request lib vx polly_client w pdf_file st = (Returned result, st')
             \<and> file_at (st_files st') name = None
             \<and> last (st_log st') = Log_info (''Deleted temporary PDF file: '' @ name)))
   \<and> (makedirs w = None \<and> named_temporary_file w = Inr name \<and> os_remove w = Some e
        \<and> exn_cls e = PermissionError
      \<longrightarrow> (\<exists>result st'. process_tts_request lib vx polly_client w pdf_file st = (Returned result, st')
             \<and> fst (process_tts_request lib vx polly_client (w\<lparr>os_remove := None\<rparr>) pdf_file st)
                 = Returned result
             \<and> last (st_log st')
                 = Log_warning (''Failed to delete temp file '' @ name @ '': '' @ exn_str e)))
   \<and> (makedirs w = None \<and> named_temporary_file w = Inr name \<and> os_remove w = Some e
        \<and> exn_cls e \<noteq> PermissionError
      \<longrightarrow> fst (process_tts_request lib vx polly_client w pdf_file st) = Raised e)
   \<and> (makedirs w \<noteq> None \<or> (\<exists>x. named_temporary_file w = Inl x)
      \<longrightarrow> (\<exists>x st'. process_tts_request lib vx polly_client w pdf_file st
                       = (Returned (error_result x), st')
             \<and> st_files st' = st_files st))"
proof -
  obtain r temp_pdf st1 where rb: "request_body lib vx polly_client w pdf_file st = (r, temp_pdf, st1)"
    by (cases "request_body lib vx polly_client w pdf_file st") auto
  have rb': "request_body lib vx polly_client (w\<lparr>os_remove := None\<rparr>) pdf_file st = (r, temp_pdf, st1)"
    using rb by (simp add: request_body_ignores_remove)
  have t: "temp_pdf = (case makedirs w of Some e \<Rightarrow> None
      | None \<Rightarrow> (case named_temporary_file w of Inl e \<Rightarrow> None | Inr name \<Rightarrow> Some name))"
    using request_body_temp[of lib vx polly_client w pdf_file st] rb by simp
  have a: "\<exists>result st'. process_tts_request lib vx polly_client w pdf_file st = (Returned result, st')
             \<and> file_at (st_files st') name = None
             \<and> last (st_log st') = Log_info (''Deleted temporary PDF file: '' @ name)"
    if "makedirs w = None" "named_temporary_file w = Inr name" "os_remove w = None"
    using that t rb
    by (auto simp: process_tts_request_def Let_def file_at_removed split: sum.splits)
  have b: "\<exists>result st'. process_tts_request lib vx polly_client w pdf_file st = (Returned result, st')
             \<and> fst (process_tts_request lib vx polly_client (w\<lparr>os_remove := None\<rparr>) pdf_file st)
                 = Returned result
             \<and> last (st_log st')
                 = Log_warning (''Failed to delete temp file '' @ name @ '': '' @ exn_str e)"
    if "makedirs w = None" "named_temporary_file w = Inr name" "os_remove w = Some e"
      "exn_cls e = PermissionError"
    using that t rb rb'
    by (auto simp: process_tts_request_def Let_def split: sum.splits)
  have c: "fst (process_tts_request lib vx polly_client w pdf_file st) = Raised e"
    if "makedirs w = None" "named_temporary_file w = Inr name" "os_remove w = Some e"
      "exn_cls e \<noteq> PermissionError"
    using that t unfolding process_unfold[OF rb] by simp
  have d: "\<exists>x st'. process_tts_request lib vx polly_client w pdf_file st
                       = (Returned (error_result x), st')
             \<and> st_files st' = st_files st"
    if "makedirs w \<noteq> None \<or> (\<exists>x. named_temporary_file w = Inl x)"
    using that
    by (auto simp: process_tts_request_def request_body_def Let_def split: option.splits sum.splits)
  from a b c d show ?thesis by blast
qed


lemma synth_block_no_provider:
  assumes "map_of d (PStr k) = Some (PDict e)" and "truthy (dict_get e (PStr ''ssml'') PNone)"
  shows "synth_block lib None output_dir fname n (PStr k, data0) (PDict d, audio_metadata, vp) st =
     (Inr (PDict (dict_set d (PStr k) (PDict (dict_set e (PStr ''timing'') (PList [])))),
           dict_set audio_metadata (PStr k)
             (PDict [(PStr ''audio_path'',
                        PStr (path_join output_dir (''block_'' @ str_of_nat n @ ''_'' @ k @ ''_audio.mp3''))),
                     (PStr ''speech_marks_path'',
                        PStr (path_join output_dir
                                (''block_'' @ str_of_nat n @ ''_'' @ k @ ''_speech_marks.json'')))]),
           Some (path_join output_dir (fname @ ''_page_'' @ str_of_nat n @ ''_trimmed_blocks.json''))),
      st\<lparr>st_files := st_files st @
          [Write (path_join output_dir (''block_'' @ str_of_nat n @ ''_'' @ k @ ''_audio.mp3'')) (Bytes []),
           Write (path_join output_dir (''block_'' @ str_of_nat n @ ''_'' @ k @ ''_speech_marks.json''))
             (Json (PList [])),
           Write (path_join output_dir (fname @ ''_page_'' @ str_of_nat n @ ''_trimmed_blocks.json''))
             (Json (PDict (dict_set d (PStr k) (PDict (dict_set e (PStr ''timing'') (PList []))))))]\<rparr>)"
proof -
  have mem: "PStr k \<in> fst ` set d"
    using assms(1) by (auto dest: map_of_SomeD intro: rev_image_eqI)
  have at: "attach_timing lib (PDict d) (PStr k) (PList [])
      = Inr (PDict (dict_set d (PStr k) (PDict (dict_set e (PStr ''timing'') (PList [])))))"
    using assms(1) mem by (simp add: attach_timing_def py_contains_def set_timing_def py_str_def)
  show ?thesis
    using assms
    by (simp add: synth_block_def save_audio_and_speech_marks_def at dict_get_def py_str_def Let_def)
qed

lemma enriched_page_run:
  assumes "makedirs w = None" and "named_temporary_file w = Inr tmp"
    and "read_upload pdf_file = Inr content" and "fitz_open w content = Inr [pg]"
    and "page_words pg = Inr ws" and "page_png pg = Inr (png, base64_img)" and "os_remove w = None"
    and "extract_blocks (palette_draws w 0) ws = Inr (img, blocks)"
    and "generate_block_json lib vx base64_img (py_of_block_details blocks)
           = (Inr (PDict [(PStr key_a, PDict block_a), (PStr key_b, PDict block_b)]), evs)"
    and "key_a \<noteq> key_b"
    and "truthy (dict_get block_a (PStr ''ssml'') PNone)" and "truthy (dict_get block_b (PStr ''ssml'') PNone)"
    and "out = path_join ''output'' (splitext_root (filename pdf_file) @ ''-'' @ now w)"
    and "trimmed = path_join out (filename pdf_file @ ''_page_0_trimmed_blocks.json'')"
    and "metadata = path_join out ''page_0_audio_speech_marks_metadata.json''"
    and "raw = path_join out (filename pdf_file @ ''_page_0_blocks.json'')"
  shows "process_tts_request lib vx None w pdf_file st =
     (Returned (PDict
        [(PStr ''status'', PStr ''success''),
         (PStr ''message'', PStr ''Processed 1 page(s).''),
         (PStr ''results'', PList
            [PDict [(PStr ''page_number'', PInt 0),
                    (PStr ''annotated_image_path'',
                       PStr (path_join out (filename pdf_file @ ''_annotated_page_0_blocks.png''))),
                    (PStr ''json_path'', PStr raw),
                    (PStr ''vertex_trimmed_path'', PStr trimmed),
                    (PStr ''metadata_path'', PStr metadata)]])]),
      st\<lparr>st_files := st_files st @
            [Write tmp (Bytes []),
             Write tmp (Bytes content),
             Write (path_join out (filename pdf_file @ ''_page_0.png'')) (Bytes png),
             Write raw (Json (py_of_block_details blocks)),
             Write (path_join out (''block_0_'' @ key_a @ ''_audio.mp3'')) (Bytes []),
             Write (path_join out (''block_0_'' @ key_a @ ''_speech_marks.json'')) (Json (PList [])),
             Write trimmed (Json (PDict
               [(PStr key_a, PDict (dict_set block_a (PStr ''timing'') (PList []))), (PStr key_b, PDict block_b)])),
             Write (path_join out (''block_0_'' @ key_b @ ''_audio.mp3'')) (Bytes []),
             Write (path_join out (''block_0_'' @ key_b @ ''_speech_marks.json'')) (Json (PList [])),
             Write trimmed (Json (PDict
               [(PStr key_a, PDict (dict_set block_a (PStr ''timing'') (PList []))),
                (PStr key_b, PDict (dict_set block_b (PStr ''timing'') (PList [])))])),
             Write metadata (Json (PDict
               [(PStr key_a, PDict
                   [(PStr ''audio_path'', PStr (path_join out (''block_0_'' @ key_a @ ''_audio.mp3''))),
                    (PStr ''speech_marks_path'',
                       PStr (path_join out (''block_0_'' @ key_a @ ''_speech_marks.json'')))]),
                (PStr key_b, PDict
                   [(PStr ''audio_path'', PStr (path_join out (''block_0_'' @ key_b @ ''_audio.mp3''))),
                    (PStr ''speech_marks_path'',
                       PStr (path_join out (''block_0_'' @ key_b @ ''_speech_marks.json'')))])])),
             Remove tmp],
         st_events := st_events st @ evs,
         st_log := st_log st @ [Log_info (''Deleted temporary PDF file: '' @ tmp)]\<rparr>)"
proof -
  have n0: "str_of_nat 0 = ''0''"
    by (simp add: digit_char_def)
  let ?d = "[(PStr key_a, PDict block_a), (PStr key_b, PDict block_b)]"
  let ?d1 = "[(PStr key_a, PDict (dict_set block_a (PStr ''timing'') (PList []))), (PStr key_b, PDict block_b)]"
  have m0: "map_of ?d (PStr key_a) = Some (PDict block_a)" by simp
  have m1: "map_of ?d1 (PStr key_b) = Some (PDict block_b)" using assms(10) by simp
  have s0: "dict_set ?d (PStr key_a) (PDict (dict_set block_a (PStr ''timing'') (PList []))) = ?d1" by simp
  have s1: "dict_set ?d1 (PStr key_b) (PDict (dict_set block_b (PStr ''timing'') (PList [])))
      = [(PStr key_a, PDict (dict_set block_a (PStr ''timing'') (PList []))),
         (PStr key_b, PDict (dict_set block_b (PStr ''timing'') (PList [])))]"
    using assms(10) by simp
  note b0 = synth_block_no_provider[OF m0 assms(11), unfolded s0, simplified digit_char_def]
  note b1 = synth_block_no_provider[OF m1 assms(12), unfolded s1, simplified digit_char_def]
  show ?thesis
    using assms(1-10)
    by (simp add: process_tts_request_def request_body_def process_page_def
        extract_page_as_base64_def save_block_details_as_json_def save_annotated_image_def
        entries_of_def b0 b1 digit_char_def Let_def assms(13-16))
qed

lemma fallback_on_mapping:
  "vertex_setup vx img = Some e \<Longrightarrow>
     generate_block_json lib vx img (py_of_block_details details) = (Inr PNone, [])"
  by (simp add: generate_block_json_def create_fallback_block_json_def json_loads_def
      py_of_block_details_def)

lemma extract_blocks_total:
  assumes "\<forall>w \<in> set ws. ordered_rect w"
  shows "\<exists>img blocks. extract_blocks draws ws = Inr (img, blocks)"
  using extract_blocks_eq[OF assms, of draws] by blast

lemma process_page_fallback:
  assumes "page_words pg = Inr ws" and "page_png pg = Inr (png, base64_img)"
    and "vertex_setup vx base64_img = Some e" and "\<forall>w \<in> set ws. ordered_rect w"
  shows "fst (process_page lib vx polly_client w fname output_dir n pg vp st)
     = Inl (Exn TypeError (quoted ''NoneType'' @ '' object is not iterable''))"
proof -
  obtain img blocks where x: "extract_blocks (palette_draws w n) ws = Inr (img, blocks)"
    using extract_blocks_total[OF assms(4)] by blast
  show ?thesis
    using assms(1,2)
    by (simp add: process_page_def extract_page_as_base64_def x save_block_details_as_json_def
        fallback_on_mapping[OF assms(3)] entries_of_def type_name_def Let_def)
qed

lemma process_page_unconfigured:
  assumes "page_words pg = Inr ws" and "page_png pg = Inr (png, base64_img)"
    and "vertex_setup vx base64_img = None" and "generative_model vx = Some e"
    and "\<forall>w \<in> set ws. ordered_rect w"
  shows "fst (process_page lib vx polly_client w fname output_dir n pg vp st) = Inl e"
proof -
  obtain img blocks where x: "extract_blocks (palette_draws w n) ws = Inr (img, blocks)"
    using extract_blocks_total[OF assms(5)] by blast
  show ?thesis
    using assms(1,2)
    by (simp add: process_page_def extract_page_as_base64_def x save_block_details_as_json_def
        generate_block_json_unconfigured[OF assms(3,4)] Let_def)
qed

lemma request_fallback:
  assumes "makedirs w = None" and "named_temporary_file w = Inr tmp"
    and "read_upload pdf_file = Inr content" and "fitz_open w content = Inr (pg # pgs)"
    and "page_words pg = Inr ws" and "page_png pg = Inr (png, base64_img)"
    and "vertex_setup vx base64_img = Some e" and "\<forall>w \<in> set ws. ordered_rect w"
  shows "fst (request_body lib vx polly_client w pdf_file st)
     = Inl (Exn TypeError (quoted ''NoneType'' @ '' object is not iterable''))"
proof -
  let ?out = "path_join ''output'' (splitext_root (filename pdf_file) @ ''-'' @ now w)"
  let ?st2 = "st\<lparr>st_files := st_files st @ [Write tmp (Bytes []), Write tmp (Bytes content)]\<rparr>"
  obtain r st' where p: "process_page lib vx polly_client w (filename pdf_file) ?out 0 pg None ?st2 = (r, st')"
    by (cases "process_page lib vx polly_client w (filename pdf_file) ?out 0 pg None ?st2") auto
  with process_page_fallback[OF assms(5-8), of lib polly_client w "filename pdf_file" ?out 0 None ?st2]
  have r: "r = Inl (Exn TypeError (quoted ''NoneType'' @ '' object is not iterable''))" by simp
  show ?thesis
    using assms(1-4) p r
    by (simp add: request_body_def Let_def)
qed

text \<open>
  Claim C1.  The request of the claim's scenario, a document of one page with the blocks
  0 and 1 in fallback mode and without a synthesis provider, does not return status
  \<open>success\<close>.  \<open>process_tts_request\<close> calls \<open>generate_block_json\<close> with the block mapping
  itself, where the function expects the JSON text of it; the fallback enrichment cannot
  decode a mapping and returns \<open>None\<close>; iterating over \<open>None\<close> raises, and the request
  ends with status \<open>error\<close>.
\<close>

theorem fallback_request_returns_error:
  "generate_block_json demo_lib fallback_vertex ''UE5H'' (py_of_block_details demo_blocks)
     = (Inr PNone, [])
   \<and> fst (process_tts_request demo_lib fallback_vertex None demo_world demo_upload empty_state)
     = Returned (PDict
         [(PStr ''status'', PStr ''error''),
          (PStr ''message'', PStr (quoted ''NoneType'' @ '' object is not iterable'')),
          (PStr ''errors'',
             PDict [(PStr ''process_tts_request'',
                     PStr (quoted ''NoneType'' @ '' object is not iterable''))])])"
proof -
  have b: "fst (request_body demo_lib fallback_vertex None demo_world demo_upload empty_state)
     = Inl (Exn TypeError (quoted ''NoneType'' @ '' object is not iterable''))"
    by (rule request_fallback[where tmp = "''/tmp/tmpa1b2.pdf''" and content = "''%PDF-1.7''"
          and pg = good_page and pgs = "[]" and ws = demo_words and png = "''PNG''" and base64_img = "''UE5H''"])
       (simp_all add: demo_world_def demo_upload_def good_page_def fallback_vertex_def
          demo_words_def ordered_rect_def)
  have g: "generate_block_json demo_lib fallback_vertex ''UE5H'' (py_of_block_details demo_blocks)
     = (Inr PNone, [])"
    by (rule fallback_on_mapping) (simp add: fallback_vertex_def)
  have r: "os_remove demo_world = None \<or> (\<exists>x. os_remove demo_world = Some x \<and> exn_cls x = PermissionError)
         \<or> makedirs demo_world \<noteq> None \<or> (\<exists>x. named_temporary_file demo_world = Inl x)"
    by (simp add: demo_world_def)
  obtain r temp_pdf st1 where rb:
    "request_body demo_lib fallback_vertex None demo_world demo_upload empty_state = (r, temp_pdf, st1)"
    by (cases "request_body demo_lib fallback_vertex None demo_world demo_upload empty_state") auto
  with b have "r = Inl (Exn TypeError (quoted ''NoneType'' @ '' object is not iterable''))" by simp
  then have "fst (process_tts_request demo_lib fallback_vertex None demo_world demo_upload empty_state)
     = Returned (PDict
         [(PStr ''status'', PStr ''error''),
          (PStr ''message'', PStr (quoted ''NoneType'' @ '' object is not iterable'')),
          (PStr ''errors'',
             PDict [(PStr ''process_tts_request'',
                     PStr (quoted ''NoneType'' @ '' object is not iterable''))])])"
    unfolding process_unfold[OF rb]
    by (simp add: demo_world_def body_result_def error_result_def split: option.splits)
  with g show ?thesis by (rule conjI)
qed

lemma clean_object_text:
  "clean_llm_response_to_json_string ([CHR ''{''] @ mid @ [CHR ''}'']) = [CHR ''{''] @ mid @ [CHR ''}'']"
proof -
  let ?s = "[CHR ''{''] @ mid @ [CHR ''}'']"
  have a: "\<not> py_isspace (CHR ''{'')" "\<not> py_isspace (CHR ''}'')"
    by (simp_all add: py_isspace_def)
  have s: "py_strip ?s = ?s"
    using a by (simp add: py_strip_def)
  have f: "\<not> startswith (py_strip ?s) json_fence"
    unfolding s by (simp add: startswith_def json_fence_def)
  have "strip_markdown_fence ?s = [] @ [CHR ''{''] @ mid @ [CHR ''}''] @ []"
    using strip_fence_absent[OF f] s by simp
  from clean_with_braces[OF this] show ?thesis by simp
qed

lemma clean_enriched: "clean_llm_response_to_json_string enriched_text = enriched_text"
  unfolding enriched_text_def by (rule clean_object_text)

lemma enriching_result:
  "generate_block_json page_lib enriching_vertex img x
     = (Inr (PDict [(PStr ''0'', PDict enriched_0), (PStr ''1'', PDict enriched_1)]), [Call 0])"
proof -
  have ne: "enriched_text \<noteq> []" by (simp add: enriched_text_def)
  show ?thesis
    unfolding generate_block_json_def upt3
    using ne by (simp add: enriching_vertex_def clean_enriched page_lib_def)
qed

lemma demo_extract: "\<exists>img. extract_blocks draws demo_words = Inr (img, demo_blocks)"
proof -
  have "map (\<lambda>k. (k, (block_of k demo_words)\<lparr>btext := py_strip (btext (block_of k demo_words))\<rparr>))
          (first_seen (map word_block demo_words)) = demo_blocks"
    by (simp add: first_seen_def demo_words_def word_block_def block_of_def word_text_def
        word_rect_def py_strip_def py_isspace_def demo_blocks_def)
  moreover have "\<forall>w \<in> set demo_words. ordered_rect w"
    by (simp add: demo_words_def ordered_rect_def)
  from extract_blocks_eq[OF this, of draws]
  have "\<exists>img. extract_blocks draws demo_words =
     Inr (img, map (\<lambda>k. (k, (block_of k demo_words)\<lparr>btext := py_strip (btext (block_of k demo_words))\<rparr>))
                 (first_seen (map word_block demo_words)))" .
  ultimately show ?thesis by simp
qed

lemma demo_truthy:
  "truthy (dict_get enriched_0 (PStr ''ssml'') PNone)"
  "truthy (dict_get enriched_1 (PStr ''ssml'') PNone)"
  by (simp_all add: enriched_0_def enriched_1_def dict_get_def ssml_wrap_def)





lemma demo_paths:
  "path_join ''output'' (splitext_root (filename demo_upload) @ ''-'' @ now demo_world)
     = ''output/book-01-02-2025-10-00-00''"
  by (simp add: demo_upload_def demo_world_def splitext_root_def path_join_def startswith_def
      endswith_def py_rfind_def py_slice_def Let_def)

text \<open>
  The same document with a provider whose answer adds the three fields to both blocks:
  status \<open>success\<close> and one page result; two entries of audio metadata with paths of an
  empty audio file and of an empty list of speech marks; and a trimmed block JSON whose
  blocks have, next to the text, the words and the bounding boxes of the raw block JSON,
  the four entries \<open>ssml\<close>, \<open>dialog\<close>, \<open>person_type\<close> and \<open>timing\<close>.
\<close>

lemma enriched_request_succeeds:
  "fst (process_tts_request page_lib enriching_vertex None demo_world demo_upload empty_state)
     = Returned (PDict
        [(PStr ''status'', PStr ''success''),
         (PStr ''message'', PStr ''Processed 1 page(s).''),
         (PStr ''results'', PList
            [PDict [(PStr ''page_number'', PInt 0),
                    (PStr ''annotated_image_path'',
                       PStr ''output/book-01-02-2025-10-00-00/book.pdf_annotated_page_0_blocks.png''),
                    (PStr ''json_path'',
                       PStr ''output/book-01-02-2025-10-00-00/book.pdf_page_0_blocks.json''),
                    (PStr ''vertex_trimmed_path'',
                       PStr ''output/book-01-02-2025-10-00-00/book.pdf_page_0_trimmed_blocks.json''),
                    (PStr ''metadata_path'',
                       PStr ''output/book-01-02-2025-10-00-00/page_0_audio_speech_marks_metadata.json'')]])])
   \<and> file_at (st_files (snd (process_tts_request page_lib enriching_vertex None demo_world
                                  demo_upload empty_state)))
        ''output/book-01-02-2025-10-00-00/page_0_audio_speech_marks_metadata.json''
     = Some (Json (PDict
         [(PStr ''0'', PDict
             [(PStr ''audio_path'', PStr ''output/book-01-02-2025-10-00-00/block_0_0_audio.mp3''),
              (PStr ''speech_marks_path'',
                 PStr ''output/book-01-02-2025-10-00-00/block_0_0_speech_marks.json'')]),
          (PStr ''1'', PDict
             [(PStr ''audio_path'', PStr ''output/book-01-02-2025-10-00-00/block_0_1_audio.mp3''),
              (PStr ''speech_marks_path'',
                 PStr ''output/book-01-02-2025-10-00-00/block_0_1_speech_marks.json'')])]))
   \<and> file_at (st_files (snd (process_tts_request page_lib enriching_vertex None demo_world
                                  demo_upload empty_state)))
        ''output/book-01-02-2025-10-00-00/block_0_1_audio.mp3'' = Some (Bytes [])
   \<and> file_at (st_files (snd (process_tts_request page_lib enriching_vertex None demo_world
                                  demo_upload empty_state)))
        ''output/book-01-02-2025-10-00-00/block_0_1_speech_marks.json'' = Some (Json (PList []))
   \<and> file_at (st_files (snd (process_tts_request page_lib enriching_vertex None demo_world
                                  demo_upload empty_state)))
        ''output/book-01-02-2025-10-00-00/book.pdf_page_0_blocks.json''
     = Some (Json (py_of_block_details demo_blocks))
   \<and> file_at (st_files (snd (process_tts_request page_lib enriching_vertex None demo_world
                                  demo_upload empty_state)))
        ''output/book-01-02-2025-10-00-00/book.pdf_page_0_trimmed_blocks.json''
     = Some (Json (PDict
         [(PStr ''0'', PDict (enriched_0 @ [(PStr ''timing'', PList [])])),
          (PStr ''1'', PDict (enriched_1 @ [(PStr ''timing'', PList [])]))]))"
proof -
  obtain img where x: "extract_blocks (palette_draws demo_world 0) demo_words = Inr (img, demo_blocks)"
    using demo_extract by blast
  have w: "makedirs demo_world = None" "named_temporary_file demo_world = Inr ''/tmp/tmpa1b2.pdf''"
    "read_upload demo_upload = Inr ''%PDF-1.7''" "fitz_open demo_world ''%PDF-1.7'' = Inr [good_page]"
    "page_words good_page = Inr demo_words" "page_png good_page = Inr (''PNG'', ''UE5H'')"
    "os_remove demo_world = None"
    by (simp_all add: demo_world_def demo_upload_def good_page_def)
  have ne: "''0'' \<noteq> ''1''" by simp
  have t: "dict_set enriched_0 (PStr ''timing'') (PList []) = enriched_0 @ [(PStr ''timing'', PList [])]"
    "dict_set enriched_1 (PStr ''timing'') (PList []) = enriched_1 @ [(PStr ''timing'', PList [])]"
    by (simp_all add: enriched_0_def enriched_1_def)
  note run = enriched_page_run[OF w x enriching_result ne demo_truthy refl refl refl refl,
      of empty_state, unfolded demo_paths t]
  show ?thesis
    unfolding run
    by (simp add: file_at_def empty_state_def path_join_def startswith_def endswith_def
        demo_upload_def)
qed

text \<open>
  The property in four environments: a removal that succeeds, one that raises
  \<open>PermissionError\<close>, one that raises \<open>FileNotFoundError\<close>, and a temporary file that
  cannot be created.
\<close>

theorem temp_file_cleanup_witness:
  "(\<exists>result st'. process_tts_request page_lib enriching_vertex None demo_world demo_upload empty_state
                     = (Returned result, st')
        \<and> file_at (st_files st') ''/tmp/tmpa1b2.pdf'' = None)
   \<and> (\<exists>result st'. process_tts_request demo_lib fallback_vertex None locked_world demo_upload empty_state
                     = (Returned result, st')
        \<and> fst (process_tts_request demo_lib fallback_vertex None demo_world demo_upload empty_state)
            = Returned result
        \<and> last (st_log st') = Log_warning ''Failed to delete temp file /tmp/tmpa1b2.pdf: file is in use'')
   \<and> fst (process_tts_request demo_lib fallback_vertex None vanished_world demo_upload empty_state)
       = Raised (Exn FileNotFoundError ''No such file'')
   \<and> (\<exists>x st'. process_tts_request demo_lib fallback_vertex None no_temp_world demo_upload empty_state
                  = (Returned (error_result x), st')
        \<and> st_files st' = [])"
proof -
  have d: "makedirs demo_world = None" "named_temporary_file demo_world = Inr ''/tmp/tmpa1b2.pdf''"
    "os_remove demo_world = None"
    by (simp_all add: demo_world_def)
  have l: "makedirs locked_world = None" "named_temporary_file locked_world = Inr ''/tmp/tmpa1b2.pdf''"
    "os_remove locked_world = Some (Exn PermissionError ''file is in use'')"
    "exn_cls (Exn PermissionError ''file is in use'') = PermissionError"
    "locked_world\<lparr>os_remove := None\<rparr> = demo_world"
    by (simp_all add: locked_world_def demo_world_def)
  have v: "makedirs vanished_world = None" "named_temporary_file vanished_world = Inr ''/tmp/tmpa1b2.pdf''"
    "os_remove vanished_world = Some (Exn FileNotFoundError ''No such file'')"
    "exn_cls (Exn FileNotFoundError ''No such file'') \<noteq> PermissionError"
    by (simp_all add: vanished_world_def demo_world_def)
  have n: "makedirs no_temp_world \<noteq> None \<or> (\<exists>x. named_temporary_file no_temp_world = Inl x)"
    by (simp add: no_temp_world_def demo_world_def)
  from temp_file_cleanup[where w = demo_world and name = "''/tmp/tmpa1b2.pdf''" and lib = page_lib
      and vx = enriching_vertex and polly_client = None and pdf_file = demo_upload and st = empty_state] d
  have a: "\<exists>result st'. process_tts_request page_lib enriching_vertex None demo_world demo_upload empty_state
                     = (Returned result, st')
        \<and> file_at (st_files st') ''/tmp/tmpa1b2.pdf'' = None"
    by blast
  from temp_file_cleanup[where w = locked_world and name = "''/tmp/tmpa1b2.pdf''"
      and e = "Exn PermissionError ''file is in use''" and lib = demo_lib
      and vx = fallback_vertex and polly_client = None and pdf_file = demo_upload and st = empty_state] l(1-4)
  have "\<exists>result st'. process_tts_request demo_lib fallback_vertex None locked_world demo_upload empty_state
                     = (Returned result, st')
        \<and> fst (process_tts_request demo_lib fallback_vertex None (locked_world\<lparr>os_remove := None\<rparr>)
                 demo_upload empty_state) = Returned result
        \<and> last (st_log st') = Log_warning (''Failed to delete temp file '' @ ''/tmp/tmpa1b2.pdf'' @ '': ''
                                              @ exn_str (Exn PermissionError ''file is in use''))"
    by blast
  then have b: "\<exists>result st'. process_tts_request demo_lib fallback_vertex None locked_world demo_upload
                      empty_state = (Returned result, st')
        \<and> fst (process_tts_request demo_lib fallback_vertex None demo_world demo_upload empty_state)
            = Returned result
        \<and> last (st_log st') = Log_warning ''Failed to delete temp file /tmp/tmpa1b2.pdf: file is in use''"
    unfolding l(5) by simp
  from temp_file_cleanup[where w = vanished_world and name = "''/tmp/tmpa1b2.pdf''"
      and e = "Exn FileNotFoundError ''No such file''" and lib = demo_lib
      and vx = fallback_vertex and polly_client = None and pdf_file = demo_upload and st = empty_state] v
  have c: "fst (process_tts_request demo_lib fallback_vertex None vanished_world demo_upload empty_state)
       = Raised (Exn FileNotFoundError ''No such file'')"
    by blast
  from temp_file_cleanup[where w = no_temp_world and lib = demo_lib
      and vx = fallback_vertex and polly_client = None and pdf_file = demo_upload and st = empty_state] n
  have "\<exists>x st'. process_tts_request demo_lib fallback_vertex None no_temp_world demo_upload empty_state
                  = (Returned (error_result x), st')
        \<and> st_files st' = st_files empty_state"
    by blast
  then have e: "\<exists>x st'. process_tts_request demo_lib fallback_vertex None no_temp_world demo_upload
                   empty_state = (Returned (error_result x), st')
        \<and> st_files st' = []"
    by (simp add: empty_state_def)
  from a b c e show ?thesis by (intro conjI)
qed

text \<open>
  A request whose \<open>try\<close> block returns the success dictionary, in the environment whose
  removal raises \<open>FileNotFoundError\<close>: the exception is not swallowed and takes the place
  of the returned dictionary.
\<close>

theorem removal_failure_replaces_result_counterexample:
  "fst (request_body page_lib enriching_vertex None vanished_world demo_upload empty_state)
     = Inr (PDict
        [(PStr ''status'', PStr ''success''),
         (PStr ''message'', PStr ''Processed 1 page(s).''),
         (PStr ''results'', PList
            [PDict [(PStr ''page_number'', PInt 0),
                    (PStr ''annotated_image_path'',
                       PStr ''output/book-01-02-2025-10-00-00/book.pdf_annotated_page_0_blocks.png''),
                    (PStr ''json_path'',
                       PStr ''output/book-01-02-2025-10-00-00/book.pdf_page_0_blocks.json''),
                    (PStr ''vertex_trimmed_path'',
                       PStr ''output/book-01-02-2025-10-00-00/book.pdf_page_0_trimmed_blocks.json''),
                    (PStr ''metadata_path'',
                       PStr ''output/book-01-02-2025-10-00-00/page_0_audio_speech_marks_metadata.json'')]])])
   \<and> fst (process_tts_request page_lib enriching_vertex None vanished_world demo_upload empty_state)
     = Raised (Exn FileNotFoundError ''No such file'')"
proof -
  let ?success = "PDict
        [(PStr ''status'', PStr ''success''),
         (PStr ''message'', PStr ''Processed 1 page(s).''),
         (PStr ''results'', PList
            [PDict [(PStr ''page_number'', PInt 0),
                    (PStr ''annotated_image_path'',
                       PStr ''output/book-01-02-2025-10-00-00/book.pdf_annotated_page_0_blocks.png''),
                    (PStr ''json_path'',
                       PStr ''output/book-01-02-2025-10-00-00/book.pdf_page_0_blocks.json''),
                    (PStr ''vertex_trimmed_path'',
                       PStr ''output/book-01-02-2025-10-00-00/book.pdf_page_0_trimmed_blocks.json''),
                    (PStr ''metadata_path'',
                       PStr ''output/book-01-02-2025-10-00-00/page_0_audio_speech_marks_metadata.json'')]])]"
  obtain img where x: "extract_blocks (palette_draws demo_world 0) demo_words = Inr (img, demo_blocks)"
    using demo_extract by blast
  have w: "makedirs demo_world = None" "named_temporary_file demo_world = Inr ''/tmp/tmpa1b2.pdf''"
    "read_upload demo_upload = Inr ''%PDF-1.7''" "fitz_open demo_world ''%PDF-1.7'' = Inr [good_page]"
    "page_words good_page = Inr demo_words" "page_png good_page = Inr (''PNG'', ''UE5H'')"
    "os_remove demo_world = None"
    by (simp_all add: demo_world_def demo_upload_def good_page_def)
  have ne: "''0'' \<noteq> ''1''" by simp
  note run = enriched_page_run[OF w x enriching_result ne demo_truthy refl refl refl refl,
      of empty_state, unfolded demo_paths]
  have ok: "fst (process_tts_request page_lib enriching_vertex None demo_world demo_upload empty_state)
      = Returned ?success"
    unfolding run by (simp add: path_join_def startswith_def endswith_def demo_upload_def)
  obtain r temp_pdf st1 where rb:
    "request_body page_lib enriching_vertex None demo_world demo_upload empty_state = (r, temp_pdf, st1)"
    by (cases "request_body page_lib enriching_vertex None demo_world demo_upload empty_state") auto
  have rv: "request_body page_lib enriching_vertex None vanished_world demo_upload empty_state
      = (r, temp_pdf, st1)"
    unfolding vanished_world_def request_body_ignores_remove by (rule rb)
  have t: "temp_pdf = Some ''/tmp/tmpa1b2.pdf''"
    using request_body_temp[of page_lib enriching_vertex None demo_world demo_upload empty_state] rb
    by (simp add: demo_world_def)
  from ok have "body_result r = ?success"
    unfolding process_unfold[OF rb] t by (simp add: w(7))
  then have r: "r = Inr ?success"
    by (cases r) (simp_all add: body_result_def error_result_def)
  have "fst (process_tts_request page_lib enriching_vertex None vanished_world demo_upload empty_state)
     = Raised (Exn FileNotFoundError ''No such file'')"
    unfolding process_unfold[OF rv] t by (simp add: vanished_world_def demo_world_def)
  with rv r show ?thesis by simp
qed

end
